theory Spec2Isabelle
  imports Main
begin

section \<open>Data model\<close>

text \<open>
  The module \<^verbatim>\<open>label_studio/tasks/functions.py\<close> works on Django model tables.
  Each table is a list of rows, a row is a record of the columns the module reads or
  writes, and primary keys are natural numbers.
\<close>

record project =
  project_id :: nat
  organization_id :: nat
  title :: string
  updated_at :: int

record task =
  task_id :: nat
  task_project_id :: nat

record annotation =
  annotation_id :: nat
  annotation_task_id :: nat
  annotation_project_id :: "nat option"

record prediction =
  prediction_id :: nat
  prediction_task_id :: nat
  prediction_project_id :: "nat option"

datatype migration_status = STATUS_STARTED | STATUS_FINISHED

text \<open>
  Modelled from the spec: the model class \<^verbatim>\<open>core.models.AsyncMigrationStatus\<close> is not
  part of the sources. The spec gives its schema as
  \<^verbatim>\<open>{id, projectRef?, name, status: enum{STARTED,FINISHED}, meta: mapping}\<close> and says that
  the metadata is absent until the record is finished, so \<open>meta\<close> is optional and a
  row created without it holds \<open>None\<close>. A metadata mapping is an association list in
  the order the dictionary literal of the source lists its keys.
\<close>

record AsyncMigrationStatus =
  migration_id :: nat
  migration_project_id :: "nat option"
  name :: string
  status :: migration_status
  meta :: "(string \<times> int) list option"

text \<open>The units of work this module hands to \<^verbatim>\<open>start_job_async_or_sync\<close>.\<close>

datatype job =
    Job_redis_job_for_calculation nat bool string
  | Job_fill_annotations_project nat
  | Job_fill_predictions_project string

record submission =
  submitted_job :: job
  queue_name :: string
  job_timeout :: "nat option"

text \<open>
  Exceptions are values. \<open>DoesNotExist\<close> and \<open>MultipleObjectsReturned\<close> come from
  \<^verbatim>\<open>Project.objects.get\<close>, \<open>AssertionError\<close> from the \<^verbatim>\<open>assert\<close> on the export
  format (it carries the list of supported formats of its message),
  \<open>IsADirectoryError\<close> and \<open>OSError\<close> from \<^verbatim>\<open>open\<close>; \<open>Raised\<close> is whatever an
  external collaborator raises.
\<close>

datatype exn =
    DoesNotExist
  | MultipleObjectsReturned
  | AssertionError "string list"
  | IsADirectoryError string
  | OSError string
  | Raised string

text \<open>
  The trace lists, in program order, what the module does to its surroundings: every
  read of the task table, every call of an external collaborator that works on task
  data, every write to a table or to the file system and every submission of a job.
  Reads of the organization and project tables are not recorded.
\<close>

datatype event =
    TaskCount nat
  | TaskFetch nat
  | Serialize nat
  | Convert string nat
  | FileWrite string
  | MigrationCreate AsyncMigrationStatus
  | MigrationSave AsyncMigrationStatus
  | Recompute nat bool
  | AnnotationUpdate nat nat
  | PredictionUpdate nat nat
  | PredictionCount nat
  | Submit submission

record world =
  organizations :: "nat list"
  projects :: "project list"
  tasks :: "task list"
  annotations :: "annotation list"
  predictions :: "prediction list"
  migrations :: "AsyncMigrationStatus list"
  redis_connected :: bool
  queue :: "submission list"
  isdir :: "string \<Rightarrow> bool"
  open_refused :: "string \<Rightarrow> bool"
  files :: "string \<Rightarrow> string option"
  trace :: "event list"

definition log_event :: "event \<Rightarrow> world \<Rightarrow> world" where
  "log_event e w = w\<lparr>trace := trace w @ [e]\<rparr>"

section \<open>The object-relational layer\<close>

text \<open>
  \<^verbatim>\<open>project.tasks\<close>: the tasks whose foreign key is the project.
\<close>

definition project_tasks :: "world \<Rightarrow> nat \<Rightarrow> task list" where
  "project_tasks w pid = filter (\<lambda>t. task_project_id t = pid) (tasks w)"

text \<open>
  \<^verbatim>\<open>Project.objects.get(id=project_id)\<close> returns the one matching row and raises when
  there is none or more than one.
\<close>

definition Project_objects_get :: "nat \<Rightarrow> world \<Rightarrow> exn + project" where
  "Project_objects_get pid w =
     (case filter (\<lambda>p. project_id p = pid) (projects w) of
        [] \<Rightarrow> Inl DoesNotExist
      | [p] \<Rightarrow> Inr p
      | _ \<Rightarrow> Inl MultipleObjectsReturned)"

text \<open>
  \<^verbatim>\<open>AsyncMigrationStatus.objects.create(project=..., name=..., status=...)\<close> inserts
  a row under a new primary key, greater than every key of the table, and returns the
  object; \<open>meta\<close> is not given.
\<close>

definition fresh_id :: "AsyncMigrationStatus list \<Rightarrow> nat" where
  "fresh_id ms = Suc (foldr max (map migration_id ms) 0)"

definition AsyncMigrationStatus_objects_create ::
  "nat option \<Rightarrow> string \<Rightarrow> migration_status \<Rightarrow> world \<Rightarrow> AsyncMigrationStatus \<times> world" where
  "AsyncMigrationStatus_objects_create pid nm st w =
     (let migration = \<lparr>migration_id = fresh_id (migrations w), migration_project_id = pid,
                        name = nm, status = st, meta = None\<rparr>
      in (migration, log_event (MigrationCreate migration) (w\<lparr>migrations := migrations w @ [migration]\<rparr>)))"

text \<open>
  \<^verbatim>\<open>migration.save()\<close> writes every column of the object to the row with its primary
  key, and inserts the row when the table has none with that key.
\<close>

definition save :: "AsyncMigrationStatus \<Rightarrow> world \<Rightarrow> world" where
  "save migration w =
     log_event (MigrationSave migration)
       (w\<lparr>migrations :=
            (if list_ex (\<lambda>r. migration_id r = migration_id migration) (migrations w)
             then map (\<lambda>r. if migration_id r = migration_id migration then migration else r) (migrations w)
             else migrations w @ [migration])\<rparr>)"

text \<open>
  \<^verbatim>\<open>filter(task__project_id=project_id)\<close> on annotations or predictions is a join with
  the task table: a row matches when a task with its \<open>task_id\<close> belongs to the project.
\<close>

definition task_in_project :: "world \<Rightarrow> nat \<Rightarrow> nat \<Rightarrow> bool" where
  "task_in_project w pid tid = list_ex (\<lambda>t. task_id t = tid \<and> task_project_id t = pid) (tasks w)"

section \<open>The job runner\<close>

text \<open>
  The bodies of the three jobs come first; \<open>start_job_async_or_sync\<close> follows them,
  since in its synchronous mode it calls them.
\<close>

subsection \<open>\<^verbatim>\<open>redis_job_for_calculation\<close>\<close>

text \<open>
  The external collaborator \<^verbatim>\<open>project.update_tasks_counters(tasks, from_scratch)\<close> is a
  parameter \<open>utc\<close>: it returns the number of tasks it processed or raises. The counters
  it writes are columns this model does not have, so it leaves the world as it is.

  The loop body follows lines 62 to 76: create the record, count the tasks for the log
  line, recompute, then set status and metadata and save. An exception of the
  recomputation leaves the function at once, with the world as it is at that moment.
\<close>

fun calculation_loop ::
  "(project \<Rightarrow> task list \<Rightarrow> bool \<Rightarrow> exn + int) \<Rightarrow> bool \<Rightarrow> string \<Rightarrow> project list \<Rightarrow> world
     \<Rightarrow> (exn + unit) \<times> world" where
  "calculation_loop utc from_scratch migration_name [] w = (Inr (), w)"
| "calculation_loop utc from_scratch migration_name (p # rest) w =
     (let (migration, w1) =
            AsyncMigrationStatus_objects_create (Some (project_id p)) migration_name STATUS_STARTED w;
          w2 = log_event (TaskCount (project_id p)) w1;
          w3 = log_event (Recompute (project_id p) from_scratch) w2
      in case utc p (project_tasks w2 (project_id p)) from_scratch of
           Inl e \<Rightarrow> (Inl e, w3)
         | Inr task_count \<Rightarrow>
             (let w4 = log_event (TaskCount (project_id p)) w3;
                  finished = migration\<lparr>status := STATUS_FINISHED,
                     meta := Some [(''tasks_processed'', task_count),
                                   (''total_project_tasks'', int (length (project_tasks w4 (project_id p))))]\<rparr>
              in calculation_loop utc from_scratch migration_name rest (save finished w4)))"

text \<open>
  \<^verbatim>\<open>Project.objects.filter(organization_id=org_id).order_by('-updated_at')\<close>: the
  projects of the organization, latest update first (rows with equal time stamps keep
  their table order).
\<close>

definition projects_of_organization :: "world \<Rightarrow> nat \<Rightarrow> project list" where
  "projects_of_organization w org_id =
     sort_key (\<lambda>p. - updated_at p) (filter (\<lambda>p. organization_id p = org_id) (projects w))"

definition redis_job_for_calculation ::
  "(project \<Rightarrow> task list \<Rightarrow> bool \<Rightarrow> exn + int) \<Rightarrow> nat \<Rightarrow> bool \<Rightarrow> string \<Rightarrow> world
     \<Rightarrow> (exn + unit) \<times> world" where
  "redis_job_for_calculation utc org_id from_scratch migration_name w =
     calculation_loop utc from_scratch migration_name (projects_of_organization w org_id) w"

subsection \<open>\<^verbatim>\<open>_fill_annotations_project\<close>\<close>

text \<open>
  \<^verbatim>\<open>Annotation.objects.filter(task__project_id=project_id).update(project_id=project_id)\<close>
  is one statement: it sets the column in every row the filter matches, whatever the row
  held before, and returns the number of rows matched. The function drops that number;
  the trace keeps it.
\<close>

definition underscore_fill_annotations_project :: "nat \<Rightarrow> world \<Rightarrow> world" where
  "underscore_fill_annotations_project pid w =
     log_event
       (AnnotationUpdate pid
          (length (filter (\<lambda>a. task_in_project w pid (annotation_task_id a)) (annotations w))))
       (w\<lparr>annotations :=
            map (\<lambda>a. if task_in_project w pid (annotation_task_id a)
                      then a\<lparr>annotation_project_id := Some pid\<rparr> else a)
                (annotations w)\<rparr>)"

subsection \<open>\<^verbatim>\<open>_fill_predictions_project\<close>\<close>

fun predictions_loop :: "string \<Rightarrow> nat list \<Rightarrow> world \<Rightarrow> world" where
  "predictions_loop migration_name [] w = w"
| "predictions_loop migration_name (pid # rest) w =
     (let (migration, w1) =
            AsyncMigrationStatus_objects_create (Some pid) migration_name STATUS_STARTED w;
          updated_count =
            length (filter (\<lambda>r. task_in_project w1 pid (prediction_task_id r)) (predictions w1));
          w2 = log_event (PredictionUpdate pid updated_count)
                 (w1\<lparr>predictions :=
                        map (\<lambda>r. if task_in_project w1 pid (prediction_task_id r)
                                  then r\<lparr>prediction_project_id := Some pid\<rparr> else r)
                            (predictions w1)\<rparr>);
          w3 = log_event (PredictionCount pid) w2;
          finished = migration\<lparr>status := STATUS_FINISHED,
             meta := Some [(''predictions_processed'', int updated_count),
                           (''total_project_predictions'',
                            int (length (filter (\<lambda>r. prediction_project_id r = Some pid) (predictions w3))))]\<rparr>
      in predictions_loop migration_name rest (save finished w3))"

definition underscore_fill_predictions_project :: "string \<Rightarrow> world \<Rightarrow> world" where
  "underscore_fill_predictions_project migration_name w =
     predictions_loop migration_name (map project_id (projects w)) w"

subsection \<open>\<^verbatim>\<open>start_job_async_or_sync\<close>\<close>

definition run_job ::
  "(project \<Rightarrow> task list \<Rightarrow> bool \<Rightarrow> exn + int) \<Rightarrow> job \<Rightarrow> world \<Rightarrow> (exn + unit) \<times> world" where
  "run_job utc j w =
     (case j of
        Job_redis_job_for_calculation org_id from_scratch migration_name \<Rightarrow>
          redis_job_for_calculation utc org_id from_scratch migration_name w
      | Job_fill_annotations_project pid \<Rightarrow> (Inr (), underscore_fill_annotations_project pid w)
      | Job_fill_predictions_project migration_name \<Rightarrow>
          (Inr (), underscore_fill_predictions_project migration_name w))"

text \<open>
  Modelled from the spec: \<^verbatim>\<open>core.redis.start_job_async_or_sync\<close> is not part of the
  sources. The spec's JobRunner "accepts a unit of work and either executes it
  immediately on the caller's thread or hands it to an asynchronous worker queue,
  selected by a runtime policy (e.g., presence of a queue backend)", with "a synchronous
  execute-now fallback with identical argument semantics"; an exception raised inside a
  unit of work is "not caught by this system". The policy here: the job is queued when a
  queue backend is connected and the caller's \<open>redis\<close> argument allows it, and is run
  in place otherwise. Every call is recorded in the trace.
\<close>

definition start_job_async_or_sync ::
  "(project \<Rightarrow> task list \<Rightarrow> bool \<Rightarrow> exn + int) \<Rightarrow> job \<Rightarrow> bool \<Rightarrow> string \<Rightarrow> nat option \<Rightarrow> world
     \<Rightarrow> (exn + unit) \<times> world" where
  "start_job_async_or_sync utc j redis qn timeout w =
     (let s = \<lparr>submitted_job = j, queue_name = qn, job_timeout = timeout\<rparr>;
          w1 = log_event (Submit s) w
      in if redis_connected w \<and> redis
         then (Inr (), w1\<lparr>queue := queue w1 @ [s]\<rparr>)
         else run_job utc j w1)"

section \<open>The dispatchers\<close>

subsection \<open>\<^verbatim>\<open>calculate_stats_all_orgs\<close>\<close>

fun stats_loop ::
  "(project \<Rightarrow> task list \<Rightarrow> bool \<Rightarrow> exn + int) \<Rightarrow> bool \<Rightarrow> bool \<Rightarrow> string \<Rightarrow> nat list \<Rightarrow> world
     \<Rightarrow> (exn + unit) \<times> world" where
  "stats_loop utc from_scratch redis migration_name [] w = (Inr (), w)"
| "stats_loop utc from_scratch redis migration_name (org_id # rest) w =
     (case start_job_async_or_sync utc
             (Job_redis_job_for_calculation org_id from_scratch migration_name)
             redis ''critical'' (Some (3600 * 24)) w of
        (Inl e, w') \<Rightarrow> (Inl e, w')
      | (Inr u, w') \<Rightarrow> stats_loop utc from_scratch redis migration_name rest w')"

text \<open>
  \<^verbatim>\<open>Organization.objects.order_by('-id').values_list('id', flat=True)\<close>: the identifiers
  in descending order.
\<close>

definition organization_ids :: "world \<Rightarrow> nat list" where
  "organization_ids w = rev (sort (organizations w))"

definition calculate_stats_all_orgs ::
  "(project \<Rightarrow> task list \<Rightarrow> bool \<Rightarrow> exn + int) \<Rightarrow> bool \<Rightarrow> bool \<Rightarrow> string \<Rightarrow> world
     \<Rightarrow> (exn + unit) \<times> world" where
  "calculate_stats_all_orgs utc from_scratch redis migration_name w =
     stats_loop utc from_scratch redis migration_name (organization_ids w) w"

subsection \<open>\<^verbatim>\<open>fill_annotations_project\<close> and \<^verbatim>\<open>fill_predictions_project\<close>\<close>

text \<open>
  Both call \<^verbatim>\<open>start_job_async_or_sync\<close> with the job and its argument only: the
  queue is the default one, no timeout is given, and \<open>redis\<close> is not passed, which
  leaves the choice to the connection.
\<close>

fun annotations_loop ::
  "(project \<Rightarrow> task list \<Rightarrow> bool \<Rightarrow> exn + int) \<Rightarrow> nat list \<Rightarrow> world \<Rightarrow> (exn + unit) \<times> world" where
  "annotations_loop utc [] w = (Inr (), w)"
| "annotations_loop utc (pid # rest) w =
     (case start_job_async_or_sync utc (Job_fill_annotations_project pid) True ''default'' None w of
        (Inl e, w') \<Rightarrow> (Inl e, w')
      | (Inr u, w') \<Rightarrow> annotations_loop utc rest w')"

definition fill_annotations_project ::
  "(project \<Rightarrow> task list \<Rightarrow> bool \<Rightarrow> exn + int) \<Rightarrow> world \<Rightarrow> (exn + unit) \<times> world" where
  "fill_annotations_project utc w = annotations_loop utc (map project_id (projects w)) w"

definition fill_predictions_project ::
  "(project \<Rightarrow> task list \<Rightarrow> bool \<Rightarrow> exn + int) \<Rightarrow> string \<Rightarrow> world \<Rightarrow> (exn + unit) \<times> world" where
  "fill_predictions_project utc migration_name w =
     start_job_async_or_sync utc (Job_fill_predictions_project migration_name) True ''default'' None w"

section \<open>Export\<close>

text \<open>
  \<^verbatim>\<open>str.upper\<close> on the ASCII letters; other characters are left as they are. (Code
  points beyond ASCII, which Python may map to other code points, are outside this
  model.)
\<close>

definition upper_char :: "char \<Rightarrow> char" where
  "upper_char c =
     (case map_of (zip ''abcdefghijklmnopqrstuvwxyz'' ''ABCDEFGHIJKLMNOPQRSTUVWXYZ'') c of
        Some u \<Rightarrow> u
      | None \<Rightarrow> c)"

definition upper :: "string \<Rightarrow> string" where
  "upper s = map upper_char s"

text \<open>
  \<^verbatim>\<open>os.path.join(path, filename)\<close> for two arguments, as \<^verbatim>\<open>posixpath\<close> defines it: an
  absolute second argument replaces the first, and a separator is put between the two
  unless the first is empty or ends with one.
\<close>

definition os_path_join :: "string \<Rightarrow> string \<Rightarrow> string" where
  "os_path_join a b =
     (if take 1 b = ''/'' then b
      else if a = [] \<or> last a = CHR ''/'' then a @ b
      else a @ ''/'' @ b)"

text \<open>
  Modelled from the spec: \<^verbatim>\<open>core.utils.common.batch\<close> is not part of the sources. The
  spec has the task collection partitioned "into fixed-size batches": each batch takes
  the next \<open>n\<close> elements, the last one what is left. \<^verbatim>\<open>export_project\<close> calls it with the
  size 1000 only; for the size 0, which no call uses, the result here is empty.
\<close>

function batch :: "'a list \<Rightarrow> nat \<Rightarrow> 'a list list" where
  "batch xs n = (if n = 0 \<or> xs = [] then [] else take n xs # batch (drop n xs) n)"
  by pat_completeness auto
termination
  by (relation "measure (\<lambda>(xs, n). length xs)") auto

declare batch.simps [simp del]

text \<open>
  The value of the \<^verbatim>\<open>serializer_context\<close> argument: \<^verbatim>\<open>None\<close>, a string, or any other
  object (a mapping, as a caller passes it or as \<^verbatim>\<open>json.loads\<close> returns it).
\<close>

datatype 'j pyval = PyNone | PyStr string | PyObj 'j

text \<open>
  The collaborators of \<^verbatim>\<open>export_project\<close> that the sources do not hold are parameters:
  the names of \<^verbatim>\<open>DataExport.get_export_formats(project)\<close>, \<^verbatim>\<open>json.loads\<close>,
  \<^verbatim>\<open>ExportMixin._get_export_serializer_option\<close>, the representation
  \<^verbatim>\<open>ExportDataSerializer\<close> gives one task with its annotations and predictions under
  the serializer options, \<^verbatim>\<open>DataExport.generate_export_file\<close> (which returns the bytes
  of the stream, the content type and the file name, or raises) and the setting
  \<^verbatim>\<open>CONVERTER_DOWNLOAD_RESOURCES\<close>.
\<close>

record ('j, 'o, 'r) collaborators =
  get_export_formats :: "project \<Rightarrow> string list"
  json_loads :: "string \<Rightarrow> exn + 'j pyval"
  get_export_serializer_option :: "'j pyval \<Rightarrow> 'o"
  to_representation :: "'o \<Rightarrow> task \<Rightarrow> annotation list \<Rightarrow> prediction list \<Rightarrow> 'r"
  generate_export_file :: "project \<Rightarrow> 'r list \<Rightarrow> string \<Rightarrow> bool \<Rightarrow> exn + string \<times> string \<times> string"
  CONVERTER_DOWNLOAD_RESOURCES :: bool

text \<open>
  Modelled from the spec: \<^verbatim>\<open>data_export.serializers.ExportDataSerializer\<close> is not part
  of the sources. With \<^verbatim>\<open>many=True\<close> its \<^verbatim>\<open>.data\<close> is, in the spec's words, the tasks
  of the batch serialized "(with annotations/predictions) into the wire
  representation": one record per task, in order.
\<close>

definition ExportDataSerializer_data ::
  "('j, 'o, 'r) collaborators \<Rightarrow> 'o \<Rightarrow> world \<Rightarrow> task list \<Rightarrow> 'r list" where
  "ExportDataSerializer_data ext serializer_options w task_batch =
     map (\<lambda>t. to_representation ext serializer_options t
                 (filter (\<lambda>a. annotation_task_id a = task_id t) (annotations w))
                 (filter (\<lambda>r. prediction_task_id r = task_id t) (predictions w)))
         task_batch"

text \<open>
  The export cycle of lines 104 to 106: \<^verbatim>\<open>tasks = []\<close>, then \<^verbatim>\<open>tasks += data\<close> for each
  batch.
\<close>

definition export_cycle :: "('t list \<Rightarrow> 'r list) \<Rightarrow> 't list list \<Rightarrow> 'r list" where
  "export_cycle data batches = foldl (\<lambda>tasks_acc b. tasks_acc @ data b) [] batches"

text \<open>
  \<^verbatim>\<open>export_project\<close>, line by line. The query set \<^verbatim>\<open>task_ids\<close> is lazy: the database is
  asked for the count in the log line (the f-string is evaluated whatever the log
  level) and for the rows when the batches are taken. \<^verbatim>\<open>open(filepath, 'wb')\<close>
  raises on a directory and wherever the file system refuses it; otherwise the file
  holds the bytes of the stream, whatever it held before.
\<close>

definition export_project ::
  "('j, 'o, 'r) collaborators \<Rightarrow> nat \<Rightarrow> string \<Rightarrow> string \<Rightarrow> 'j pyval \<Rightarrow> world
     \<Rightarrow> (exn + string) \<times> world" where
  "export_project ext pid export_format path serializer_context w =
     (case Project_objects_get pid w of
        Inl e \<Rightarrow> (Inl e, w)
      | Inr p \<Rightarrow>
         (let export_format = upper export_format;
              supported_formats = get_export_formats ext p
          in if export_format \<notin> set supported_formats
             then (Inl (AssertionError supported_formats), w)
             else
              (let task_ids = project_tasks w (project_id p);
                   w1 = log_event (TaskCount (project_id p)) w
               in case (case serializer_context of
                          PyStr s \<Rightarrow> json_loads ext s
                        | _ \<Rightarrow> Inr serializer_context) of
                    Inl e \<Rightarrow> (Inl e, w1)
                  | Inr serializer_context \<Rightarrow>
                     (let serializer_options = get_export_serializer_option ext serializer_context;
                          w2 = log_event (TaskFetch (project_id p)) w1;
                          batches = batch task_ids 1000;
                          task_records =
                            export_cycle (ExportDataSerializer_data ext serializer_options w2) batches;
                          w3 = w2\<lparr>trace := trace w2 @ map (\<lambda>b. Serialize (length b)) batches\<rparr>;
                          w4 = log_event (Convert export_format (length task_records)) w3
                      in case generate_export_file ext p task_records export_format
                                (CONVERTER_DOWNLOAD_RESOURCES ext) of
                           Inl e \<Rightarrow> (Inl e, w4)
                         | Inr (export_stream, content_type, filename) \<Rightarrow>
                            (let filepath = (if isdir w4 path then os_path_join path filename else path)
                             in if isdir w4 filepath then (Inl (IsADirectoryError filepath), w4)
                                else if open_refused w4 filepath then (Inl (OSError filepath), w4)
                                else (Inr filepath,
                                      log_event (FileWrite filepath)
                                        (w4\<lparr>files := (files w4)(filepath \<mapsto> export_stream)\<rparr>)))))))"

section \<open>Vocabulary of the properties\<close>

text \<open>The two shapes of ledger row the jobs write.\<close>

definition started_row :: "nat \<Rightarrow> nat \<Rightarrow> string \<Rightarrow> AsyncMigrationStatus" where
  "started_row k pid nm =
     \<lparr>migration_id = k, migration_project_id = Some pid, name = nm,
      status = STATUS_STARTED, meta = None\<rparr>"

definition finished_row :: "nat \<Rightarrow> nat \<Rightarrow> string \<Rightarrow> (string \<times> int) list \<Rightarrow> AsyncMigrationStatus" where
  "finished_row k pid nm mt =
     \<lparr>migration_id = k, migration_project_id = Some pid, name = nm,
      status = STATUS_FINISHED, meta = Some mt\<rparr>"

text \<open>
  The metadata and the world after one iteration of \<open>calculation_loop\<close> in which the
  recomputation returned \<open>n\<close>.
\<close>

definition calculation_meta :: "world \<Rightarrow> project \<Rightarrow> int \<Rightarrow> (string \<times> int) list" where
  "calculation_meta w p n =
     [(''tasks_processed'', n),
      (''total_project_tasks'', int (length (project_tasks w (project_id p))))]"

definition after_calculation :: "bool \<Rightarrow> string \<Rightarrow> project \<Rightarrow> int \<Rightarrow> world \<Rightarrow> world" where
  "after_calculation fs nm p n w =
     w\<lparr>migrations := migrations w @
          [finished_row (fresh_id (migrations w)) (project_id p) nm (calculation_meta w p n)],
       trace := trace w @
          [MigrationCreate (started_row (fresh_id (migrations w)) (project_id p) nm),
           TaskCount (project_id p), Recompute (project_id p) fs, TaskCount (project_id p),
           MigrationSave (finished_row (fresh_id (migrations w)) (project_id p) nm
                            (calculation_meta w p n))]\<rparr>"

text \<open>
  A ledger row of the recompute worker whose metadata holds the two counts, the
  processed one no greater than the total.
\<close>

definition processed_le_total :: "AsyncMigrationStatus \<Rightarrow> bool" where
  "processed_le_total r =
     (case meta r of
        Some [(k1, processed), (k2, all_tasks)] \<Rightarrow>
          k1 = ''tasks_processed'' \<and> k2 = ''total_project_tasks'' \<and> processed \<le> all_tasks
      | _ \<Rightarrow> False)"

text \<open>
  The contract the spec gives the recomputer ("returns the number of tasks processed"):
  it never reports more tasks than it was handed.
\<close>

definition counts_at_most_given :: "(project \<Rightarrow> task list \<Rightarrow> bool \<Rightarrow> exn + int) \<Rightarrow> bool" where
  "counts_at_most_given utc = (\<forall>p ts fs n. utc p ts fs = Inr n \<longrightarrow> n \<le> int (length ts))"

text \<open>
  The recomputer returns for a project (it does not raise). What it is handed depends
  on the task table only, which no job of this module writes.
\<close>

definition returns_for ::
  "(project \<Rightarrow> task list \<Rightarrow> bool \<Rightarrow> exn + int) \<Rightarrow> bool \<Rightarrow> world \<Rightarrow> project \<Rightarrow> bool" where
  "returns_for utc fs w p = (\<not> isl (utc p (project_tasks w (project_id p)) fs))"

text \<open>
  The rows and the events of a run of \<open>calculation_loop\<close> over projects for which the
  recomputer returns, the first row under the key \<open>k\<close>.
\<close>

definition finished_calculation ::
  "(project \<Rightarrow> task list \<Rightarrow> bool \<Rightarrow> exn + int) \<Rightarrow> bool \<Rightarrow> string \<Rightarrow> world \<Rightarrow> nat \<Rightarrow> project
     \<Rightarrow> AsyncMigrationStatus" where
  "finished_calculation utc fs nm w k p =
     finished_row k (project_id p) nm
       (calculation_meta w p (projr (utc p (project_tasks w (project_id p)) fs)))"

primrec calculation_rows ::
  "(project \<Rightarrow> task list \<Rightarrow> bool \<Rightarrow> exn + int) \<Rightarrow> bool \<Rightarrow> string \<Rightarrow> world \<Rightarrow> nat \<Rightarrow> project list
     \<Rightarrow> AsyncMigrationStatus list" where
  "calculation_rows utc fs nm w k [] = []"
| "calculation_rows utc fs nm w k (p # ps) =
     finished_calculation utc fs nm w k p # calculation_rows utc fs nm w (Suc k) ps"

primrec calculation_events ::
  "(project \<Rightarrow> task list \<Rightarrow> bool \<Rightarrow> exn + int) \<Rightarrow> bool \<Rightarrow> string \<Rightarrow> world \<Rightarrow> nat \<Rightarrow> project list
     \<Rightarrow> event list" where
  "calculation_events utc fs nm w k [] = []"
| "calculation_events utc fs nm w k (p # ps) =
     [MigrationCreate (started_row k (project_id p) nm),
      TaskCount (project_id p), Recompute (project_id p) fs, TaskCount (project_id p),
      MigrationSave (finished_calculation utc fs nm w k p)]
     @ calculation_events utc fs nm w (Suc k) ps"

text \<open>
  The history of one ledger record: the writes to the row with key \<open>i\<close> among some
  events, in order. A record that was created and left alone has the first shape, one
  that was created and then finished once the second.
\<close>

definition ledger_writes :: "nat \<Rightarrow> event list \<Rightarrow> event list" where
  "ledger_writes i evs =
     filter (\<lambda>e. case e of MigrationCreate r \<Rightarrow> migration_id r = i
                   | MigrationSave r \<Rightarrow> migration_id r = i
                   | _ \<Rightarrow> False) evs"

definition started_only :: "event list \<Rightarrow> bool" where
  "started_only ws =
     (case ws of
        [MigrationCreate r] \<Rightarrow> status r = STATUS_STARTED \<and> meta r = None
      | _ \<Rightarrow> False)"

definition started_then_finished :: "event list \<Rightarrow> bool" where
  "started_then_finished ws =
     (case ws of
        [MigrationCreate r, MigrationSave r'] \<Rightarrow>
          migration_id r' = migration_id r \<and>
          status r = STATUS_STARTED \<and> meta r = None \<and>
          status r' = STATUS_FINISHED \<and> meta r' \<noteq> None
      | _ \<Rightarrow> False)"

text \<open>The world after one iteration of \<open>predictions_loop\<close>.\<close>

definition after_prediction :: "string \<Rightarrow> nat \<Rightarrow> world \<Rightarrow> world" where
  "after_prediction nm pid w =
     (let k = fresh_id (migrations w);
          n = length (filter (\<lambda>r. task_in_project w pid (prediction_task_id r)) (predictions w));
          updated = map (\<lambda>r. if task_in_project w pid (prediction_task_id r)
                               then r\<lparr>prediction_project_id := Some pid\<rparr> else r) (predictions w);
          fin = finished_row k pid nm
                  [(''predictions_processed'', int n),
                   (''total_project_predictions'',
                    int (length (filter (\<lambda>r. prediction_project_id r = Some pid) updated)))]
      in w\<lparr>predictions := updated,
           migrations := migrations w @ [fin],
           trace := trace w @ [MigrationCreate (started_row k pid nm), PredictionUpdate pid n,
                               PredictionCount pid, MigrationSave fin]\<rparr>)"

text \<open>The submissions among some events, in order.\<close>

definition submitted :: "event list \<Rightarrow> submission list" where
  "submitted evs = concat (map (\<lambda>e. case e of Submit s \<Rightarrow> [s] | _ \<Rightarrow> []) evs)"

text \<open>
  What \<^verbatim>\<open>calculate_stats_all_orgs\<close> passes to the job runner for one organization:
  the job with \<open>(org_id, from_scratch, migration_name)\<close>, the queue \<^verbatim>\<open>critical\<close>
  and a timeout of 24 hours in seconds. \<open>annotation_submission\<close> is what
  \<^verbatim>\<open>fill_annotations_project\<close> passes for one project.
\<close>

definition sweep_submission :: "bool \<Rightarrow> string \<Rightarrow> nat \<Rightarrow> submission" where
  "sweep_submission fs nm org_id =
     \<lparr>submitted_job = Job_redis_job_for_calculation org_id fs nm, queue_name = ''critical'',
      job_timeout = Some 86400\<rparr>"

definition annotation_submission :: "nat \<Rightarrow> submission" where
  "annotation_submission pid =
     \<lparr>submitted_job = Job_fill_annotations_project pid, queue_name = ''default'', job_timeout = None\<rparr>"

text \<open>The database: every table, without the queue, the file system and the trace.\<close>

definition database ::
  "world \<Rightarrow> nat list \<times> project list \<times> task list \<times> annotation list \<times> prediction list
     \<times> AsyncMigrationStatus list" where
  "database w = (organizations w, projects w, tasks w, annotations w, predictions w, migrations w)"

text \<open>
  The bulk updates of annotations among some events, each with its project and the
  number of rows it matched; the number of annotations the update for a project matches
  in a world.
\<close>

definition annotation_updates :: "event list \<Rightarrow> (nat \<times> nat) list" where
  "annotation_updates evs =
     concat (map (\<lambda>e. case e of AnnotationUpdate pid n \<Rightarrow> [(pid, n)] | _ \<Rightarrow> []) evs)"

definition annotation_count :: "world \<Rightarrow> nat \<Rightarrow> nat" where
  "annotation_count w pid =
     length (filter (\<lambda>a. task_in_project w pid (annotation_task_id a)) (annotations w))"

text \<open>
  An annotation after the updates for the projects \<open>pids\<close>, in that order: it holds
  the last of them that its task belongs to, and what it held before when there is none.
\<close>

definition backfilled :: "world \<Rightarrow> nat list \<Rightarrow> annotation \<Rightarrow> annotation" where
  "backfilled w pids a =
     a\<lparr>annotation_project_id :=
          foldl (\<lambda>v pid. if task_in_project w pid (annotation_task_id a) then Some pid else v)
                (annotation_project_id a) pids\<rparr>"

text \<open>
  The world after one iteration of \<open>annotations_loop\<close> that ran its job in place, the
  events of a whole such run and the world after it.
\<close>

definition after_annotations :: "nat \<Rightarrow> world \<Rightarrow> world" where
  "after_annotations pid w =
     w\<lparr>annotations := map (\<lambda>a. if task_in_project w pid (annotation_task_id a)
                                 then a\<lparr>annotation_project_id := Some pid\<rparr> else a) (annotations w),
       trace := trace w @ [Submit (annotation_submission pid),
                           AnnotationUpdate pid (annotation_count w pid)]\<rparr>"

definition annotation_run_events :: "world \<Rightarrow> event list" where
  "annotation_run_events w =
     concat (map (\<lambda>pid. [Submit (annotation_submission pid),
                            AnnotationUpdate pid (annotation_count w pid)])
                 (map project_id (projects w)))"

definition after_annotation_run :: "world \<Rightarrow> world" where
  "after_annotation_run w =
     w\<lparr>annotations := map (backfilled w (map project_id (projects w))) (annotations w),
       trace := trace w @ annotation_run_events w\<rparr>"

text \<open>
  The serializer context \<^verbatim>\<open>export_project\<close> works with after lines 99 and 100 (a string
  is parsed, anything else is taken as it is), the records it hands to the converter,
  the events of an export up to and with the conversion, and the path it writes to.
\<close>

definition parsed_context :: "('j, 'o, 'r) collaborators \<Rightarrow> 'j pyval \<Rightarrow> exn + 'j pyval" where
  "parsed_context ext serializer_context =
     (case serializer_context of PyStr s \<Rightarrow> json_loads ext s | _ \<Rightarrow> Inr serializer_context)"

definition export_records ::
  "('j, 'o, 'r) collaborators \<Rightarrow> 'j pyval \<Rightarrow> world \<Rightarrow> nat \<Rightarrow> 'r list" where
  "export_records ext parsed w pid =
     ExportDataSerializer_data ext (get_export_serializer_option ext parsed) w (project_tasks w pid)"

definition export_events :: "world \<Rightarrow> nat \<Rightarrow> string \<Rightarrow> event list" where
  "export_events w pid export_format =
     [TaskCount pid, TaskFetch pid]
     @ map (\<lambda>b. Serialize (length b)) (batch (project_tasks w pid) 1000)
     @ [Convert (upper export_format) (length (project_tasks w pid))]"

definition resolved_path :: "world \<Rightarrow> string \<Rightarrow> string \<Rightarrow> string" where
  "resolved_path w path filename = (if isdir w path then os_path_join path filename else path)"

text \<open>Two recomputers for the examples: one counts every task, one raises for project 2.\<close>

definition counts_all :: "project \<Rightarrow> task list \<Rightarrow> bool \<Rightarrow> exn + int" where
  "counts_all p ts fs = Inr (int (length ts))"

definition raises_for_2 :: "project \<Rightarrow> task list \<Rightarrow> bool \<Rightarrow> exn + int" where
  "raises_for_2 p ts fs = (if project_id p = 2 then Inl (Raised ''boom'') else Inr (int (length ts)))"

text \<open>
  Two worlds for the examples. The small one has one organization with one project and
  no task. The other has two organizations, three projects, three tasks and, in both
  child tables, one row without a project reference and one with a wrong one.
\<close>

definition small_world :: world where
  "small_world =
     \<lparr>organizations = [1],
      projects = [\<lparr>project_id = 1, organization_id = 1, title = ''P1'', updated_at = 10\<rparr>],
      tasks = [], annotations = [], predictions = [], migrations = [],
      redis_connected = False, queue = [],
      isdir = (\<lambda>p. False), open_refused = (\<lambda>p. False), files = (\<lambda>p. None), trace = []\<rparr>"

definition example_world :: world where
  "example_world =
     \<lparr>organizations = [1, 2],
      projects = [\<lparr>project_id = 1, organization_id = 1, title = ''P1'', updated_at = 10\<rparr>,
                  \<lparr>project_id = 2, organization_id = 1, title = ''P2'', updated_at = 20\<rparr>,
                  \<lparr>project_id = 3, organization_id = 2, title = ''P3'', updated_at = 5\<rparr>],
      tasks = [\<lparr>task_id = 1, task_project_id = 1\<rparr>, \<lparr>task_id = 2, task_project_id = 1\<rparr>,
               \<lparr>task_id = 3, task_project_id = 3\<rparr>],
      annotations = [\<lparr>annotation_id = 1, annotation_task_id = 1, annotation_project_id = None\<rparr>,
                     \<lparr>annotation_id = 2, annotation_task_id = 3, annotation_project_id = Some 1\<rparr>],
      predictions = [\<lparr>prediction_id = 1, prediction_task_id = 2, prediction_project_id = None\<rparr>,
                     \<lparr>prediction_id = 2, prediction_task_id = 3, prediction_project_id = Some 1\<rparr>],
      migrations = [],
      redis_connected = False, queue = [],
      isdir = (\<lambda>p. p = ''/tmp''), open_refused = (\<lambda>p. False), files = (\<lambda>p. None), trace = []\<rparr>"

text \<open>
  Collaborators for the examples: two supported formats; a \<open>json_loads\<close> that knows
  the empty object only; a representation of a task that is a number; a converter whose
  stream has one byte for each record.
\<close>

definition example_collaborators :: "(unit, bool, nat) collaborators" where
  "example_collaborators =
     \<lparr>get_export_formats = (\<lambda>p. [''JSON'', ''CSV'']),
      json_loads = (\<lambda>s. if s = ''{}'' then Inr (PyObj ()) else Inl (Raised ''JSONDecodeError'')),
      get_export_serializer_option = (\<lambda>v. v = PyObj ()),
      to_representation = (\<lambda>opts t anns preds. task_id t + length anns + length preds),
      generate_export_file = (\<lambda>p records fmt download. Inr (replicate (length records) CHR ''x'', ''application/json'', ''export.json'')),
      CONVERTER_DOWNLOAD_RESOURCES = True\<rparr>"

section \<open>The ledger\<close>

lemma trace_log_event: "trace (log_event e w) = trace w @ [e]"
  by (simp add: log_event_def)

lemma fresh_id_gt: "r \<in> set ms \<Longrightarrow> migration_id r < fresh_id ms"
  unfolding fresh_id_def by (induction ms) auto

lemma no_fresh_row: "\<not> list_ex (\<lambda>r. migration_id r = fresh_id ms) ms"
  using fresh_id_gt by (fastforce simp: list_ex_iff)

lemma map_replace_fresh:
  "map (\<lambda>r. if migration_id r = fresh_id ms then m else r) ms = ms"
  using fresh_id_gt by (fastforce intro: map_idI)

lemma foldr_max_start: "foldr max xs (b::nat) = max (foldr max xs 0) b"
  by (induction xs) auto

lemma fresh_id_snoc:
  assumes "migration_id m = fresh_id ms"
  shows "fresh_id (ms @ [m]) = Suc (fresh_id ms)"
proof -
  have "foldr max (map migration_id ms) (Suc (foldr max (map migration_id ms) 0)) =
        max (foldr max (map migration_id ms) 0) (Suc (foldr max (map migration_id ms) 0))"
    by (rule foldr_max_start)
  with assms show ?thesis by (simp add: fresh_id_def)
qed

subsection \<open>One iteration of the recompute worker\<close>

lemma calculation_loop_raise:
  "utc p (project_tasks w (project_id p)) fs = Inl e \<Longrightarrow>
   calculation_loop utc fs nm (p # rest) w =
     (Inl e, w\<lparr>migrations := migrations w @ [started_row (fresh_id (migrations w)) (project_id p) nm],
               trace := trace w @ [MigrationCreate (started_row (fresh_id (migrations w)) (project_id p) nm),
                                   TaskCount (project_id p), Recompute (project_id p) fs]\<rparr>)"
  by (simp add: AsyncMigrationStatus_objects_create_def log_event_def project_tasks_def
      started_row_def Let_def)

lemma calculation_loop_return:
  "utc p (project_tasks w (project_id p)) fs = Inr n \<Longrightarrow>
   calculation_loop utc fs nm (p # rest) w =
     calculation_loop utc fs nm rest (after_calculation fs nm p n w)"
  by (simp add: AsyncMigrationStatus_objects_create_def log_event_def project_tasks_def save_def
      started_row_def finished_row_def map_replace_fresh no_fresh_row Let_def
      after_calculation_def calculation_meta_def)

declare calculation_loop.simps(2) [simp del]

lemma calculation_loop_new_rows:
  assumes "counts_at_most_given utc"
  shows "\<exists>new. migrations (snd (calculation_loop utc fs nm ps w)) = migrations w @ new \<and>
           (\<forall>r\<in>set new. status r = STATUS_FINISHED \<longrightarrow> processed_le_total r)"
proof (induction ps arbitrary: w)
  case Nil
  show ?case by simp
next
  case (Cons p ps)
  show ?case
  proof (cases "utc p (project_tasks w (project_id p)) fs")
    case (Inl e)
    then show ?thesis
      by (simp add: calculation_loop_raise started_row_def)
  next
    case (Inr n)
    let ?fin = "finished_row (fresh_id (migrations w)) (project_id p) nm (calculation_meta w p n)"
    let ?w = "after_calculation fs nm p n w"
    from assms Inr have "n \<le> int (length (project_tasks w (project_id p)))"
      by (auto simp: counts_at_most_given_def)
    then have fin: "processed_le_total ?fin"
      by (simp add: processed_le_total_def finished_row_def calculation_meta_def)
    from Cons.IH [of ?w] obtain new where
      "migrations (snd (calculation_loop utc fs nm ps ?w)) = migrations ?w @ new"
      and "\<forall>r\<in>set new. status r = STATUS_FINISHED \<longrightarrow> processed_le_total r"
      by blast
    with fin Inr show ?thesis
      by (intro exI [of _ "?fin # new"]) (simp add: calculation_loop_return after_calculation_def)
  qed
qed

subsection \<open>Whole runs of the recompute worker\<close>

lemma project_tasks_cong: "tasks w' = tasks w \<Longrightarrow> project_tasks w' = project_tasks w"
  by (auto simp: project_tasks_def fun_eq_iff)

lemma calculation_rows_cong:
  "tasks w' = tasks w \<Longrightarrow> calculation_rows utc fs nm w' k ps = calculation_rows utc fs nm w k ps"
  by (induction ps arbitrary: k)
     (simp_all add: finished_calculation_def calculation_meta_def project_tasks_cong [of w' w])

lemma calculation_events_cong:
  "tasks w' = tasks w \<Longrightarrow> calculation_events utc fs nm w' k ps = calculation_events utc fs nm w k ps"
  by (induction ps arbitrary: k)
     (simp_all add: finished_calculation_def calculation_meta_def project_tasks_cong [of w' w])

lemma returns_for_cong: "tasks w' = tasks w \<Longrightarrow> returns_for utc fs w' = returns_for utc fs w"
  by (simp add: returns_for_def fun_eq_iff project_tasks_cong [of w' w])

lemma after_calculation_frame:
  "tasks (after_calculation fs nm p n w) = tasks w"
  "fresh_id (migrations (after_calculation fs nm p n w)) = Suc (fresh_id (migrations w))"
  by (simp_all add: after_calculation_def fresh_id_snoc finished_row_def)

lemma calculation_loop_all_return:
  assumes "list_all (returns_for utc fs w) ps"
  shows "calculation_loop utc fs nm ps w =
           (Inr (), w\<lparr>migrations := migrations w @ calculation_rows utc fs nm w (fresh_id (migrations w)) ps,
                      trace := trace w @ calculation_events utc fs nm w (fresh_id (migrations w)) ps\<rparr>)"
  using assms
proof (induction ps arbitrary: w)
  case Nil
  show ?case by simp
next
  case (Cons p ps)
  from Cons.prems obtain n where n: "utc p (project_tasks w (project_id p)) fs = Inr n"
    by (cases "utc p (project_tasks w (project_id p)) fs") (auto simp: returns_for_def)
  let ?w = "after_calculation fs nm p n w"
  have t: "tasks ?w = tasks w" by (rule after_calculation_frame)
  from Cons.prems have "list_all (returns_for utc fs ?w) ps"
    by (simp add: returns_for_cong [OF t])
  then have "calculation_loop utc fs nm ps ?w =
           (Inr (), ?w\<lparr>migrations := migrations ?w @ calculation_rows utc fs nm ?w (fresh_id (migrations ?w)) ps,
                      trace := trace ?w @ calculation_events utc fs nm ?w (fresh_id (migrations ?w)) ps\<rparr>)"
    by (rule Cons.IH)
  then show ?case
    using n by (simp add: calculation_loop_return calculation_rows_cong [OF t]
        calculation_events_cong [OF t] after_calculation_frame(2))
      (simp add: after_calculation_def finished_calculation_def)
qed

lemma calculation_loop_first_raise:
  assumes "list_all (returns_for utc fs w) before"
      and "utc p (project_tasks w (project_id p)) fs = Inl e"
  shows "calculation_loop utc fs nm (before @ p # rest) w =
           (Inl e,
            w\<lparr>migrations := migrations w @ calculation_rows utc fs nm w (fresh_id (migrations w)) before
                    @ [started_row (fresh_id (migrations w) + length before) (project_id p) nm],
              trace := trace w @ calculation_events utc fs nm w (fresh_id (migrations w)) before
                    @ [MigrationCreate (started_row (fresh_id (migrations w) + length before) (project_id p) nm),
                       TaskCount (project_id p), Recompute (project_id p) fs]\<rparr>)"
  using assms
proof (induction before arbitrary: w)
  case Nil
  then show ?case by (simp add: calculation_loop_raise)
next
  case (Cons q qs)
  from Cons.prems obtain n where n: "utc q (project_tasks w (project_id q)) fs = Inr n"
    by (cases "utc q (project_tasks w (project_id q)) fs") (auto simp: returns_for_def)
  let ?w = "after_calculation fs nm q n w"
  have t: "tasks ?w = tasks w" by (rule after_calculation_frame)
  from Cons.prems have "list_all (returns_for utc fs ?w) qs"
    and "utc p (project_tasks ?w (project_id p)) fs = Inl e"
    by (simp_all add: returns_for_cong [OF t] project_tasks_cong [OF t])
  then have "calculation_loop utc fs nm (qs @ p # rest) ?w =
           (Inl e,
            ?w\<lparr>migrations := migrations ?w @ calculation_rows utc fs nm ?w (fresh_id (migrations ?w)) qs
                    @ [started_row (fresh_id (migrations ?w) + length qs) (project_id p) nm],
              trace := trace ?w @ calculation_events utc fs nm ?w (fresh_id (migrations ?w)) qs
                    @ [MigrationCreate (started_row (fresh_id (migrations ?w) + length qs) (project_id p) nm),
                       TaskCount (project_id p), Recompute (project_id p) fs]\<rparr>)"
    by (rule Cons.IH)
  then show ?case
    using n by (simp add: calculation_loop_return calculation_rows_cong [OF t]
        calculation_events_cong [OF t] after_calculation_frame(2))
      (simp add: after_calculation_def finished_calculation_def)
qed

lemma first_raise_split:
  "list_all (returns_for utc fs w) ps \<or>
   (\<exists>before p rest e. ps = before @ p # rest \<and> list_all (returns_for utc fs w) before \<and>
        utc p (project_tasks w (project_id p)) fs = Inl e)"
proof (cases "list_all (returns_for utc fs w) ps")
  case True
  then show ?thesis by simp
next
  case False
  then have "\<exists>q\<in>set ps. \<not> returns_for utc fs w q"
    by (simp add: list_all_iff)
  then obtain qs p rest where ps: "ps = qs @ p # rest" and p: "\<not> returns_for utc fs w p"
    and qs: "\<forall>q\<in>set qs. \<not> \<not> returns_for utc fs w q"
    by (auto dest!: split_list_first_prop)
  from p obtain e where "utc p (project_tasks w (project_id p)) fs = Inl e"
    by (cases "utc p (project_tasks w (project_id p)) fs") (auto simp: returns_for_def)
  with ps qs show ?thesis by (auto simp: list_all_iff)
qed

lemma calculation_loop_raise_split:
  assumes "fst (calculation_loop utc fs nm ps w) = Inl e"
  shows "\<exists>before p rest. ps = before @ p # rest \<and> list_all (returns_for utc fs w) before \<and>
           utc p (project_tasks w (project_id p)) fs = Inl e"
proof -
  from first_raise_split [of utc fs w ps] show ?thesis
  proof (elim disjE exE conjE)
    assume "list_all (returns_for utc fs w) ps"
    then have "fst (calculation_loop utc fs nm ps w) = Inr ()"
      by (simp add: calculation_loop_all_return)
    with assms show ?thesis by simp
  next
    fix before p rest e'
    assume ps: "ps = before @ p # rest" and b: "list_all (returns_for utc fs w) before"
      and p: "utc p (project_tasks w (project_id p)) fs = Inl e'"
    then have "fst (calculation_loop utc fs nm ps w) = Inl e'"
      by (simp add: calculation_loop_first_raise)
    with assms have "e' = e" by simp
    with ps b p show ?thesis by blast
  qed
qed

subsection \<open>The prediction backfill and the history of a ledger record\<close>

lemma predictions_loop_step:
  "predictions_loop nm (pid # rest) w = predictions_loop nm rest (after_prediction nm pid w)"
  by (simp add: AsyncMigrationStatus_objects_create_def log_event_def save_def task_in_project_def
      started_row_def finished_row_def map_replace_fresh no_fresh_row Let_def after_prediction_def)

declare predictions_loop.simps(2) [simp del]

lemma ledger_writes_append [simp]:
  "ledger_writes i (xs @ ys) = ledger_writes i xs @ ledger_writes i ys"
  by (simp add: ledger_writes_def)

lemma ledger_writes_Nil [simp]: "ledger_writes i [] = []"
  by (simp add: ledger_writes_def)

lemma ledger_writes_Cons [simp]:
  "ledger_writes i (MigrationCreate r # evs) =
     (if migration_id r = i then MigrationCreate r # ledger_writes i evs else ledger_writes i evs)"
  "ledger_writes i (MigrationSave r # evs) =
     (if migration_id r = i then MigrationSave r # ledger_writes i evs else ledger_writes i evs)"
  "ledger_writes i (TaskCount a # evs) = ledger_writes i evs"
  "ledger_writes i (TaskFetch a # evs) = ledger_writes i evs"
  "ledger_writes i (Serialize a # evs) = ledger_writes i evs"
  "ledger_writes i (Convert s a # evs) = ledger_writes i evs"
  "ledger_writes i (FileWrite s # evs) = ledger_writes i evs"
  "ledger_writes i (Recompute a b # evs) = ledger_writes i evs"
  "ledger_writes i (AnnotationUpdate a c # evs) = ledger_writes i evs"
  "ledger_writes i (PredictionUpdate a c # evs) = ledger_writes i evs"
  "ledger_writes i (PredictionCount a # evs) = ledger_writes i evs"
  "ledger_writes i (Submit sb # evs) = ledger_writes i evs"
  by (simp_all add: ledger_writes_def)

lemma row_ids [simp]:
  "migration_id (started_row k pid nm) = k"
  "migration_id (finished_row k pid nm mt) = k"
  by (simp_all add: started_row_def finished_row_def)

lemma started_then_finished_rows:
  "started_then_finished [MigrationCreate (started_row k pid nm), MigrationSave (finished_row k pid nm mt)]"
  by (simp add: started_then_finished_def started_row_def finished_row_def)

lemma started_only_row: "started_only [MigrationCreate (started_row k pid nm)]"
  by (simp add: started_only_def started_row_def)

lemma ledger_writes_calculation_events:
  "ledger_writes i (calculation_events utc fs nm w k ps) =
     (if k \<le> i \<and> i < k + length ps
      then [MigrationCreate (started_row i (project_id (ps ! (i - k))) nm),
            MigrationSave (finished_calculation utc fs nm w i (ps ! (i - k)))]
      else [])"
proof (induction ps arbitrary: k)
  case Nil
  show ?case by simp
next
  case (Cons p ps)
  show ?case
    by (auto simp add: Cons.IH finished_calculation_def nth_Cons' Suc_diff_le)
qed

lemma after_prediction_frame:
  "fresh_id (migrations (after_prediction nm pid w)) = Suc (fresh_id (migrations w))"
  "\<exists>new. migrations (after_prediction nm pid w) = migrations w @ new"
  by (simp_all add: after_prediction_def Let_def fresh_id_snoc)

lemma predictions_loop_lifecycle:
  "\<exists>evs. trace (predictions_loop nm pids w) = trace w @ evs \<and>
         (\<forall>i. i < fresh_id (migrations w) \<longrightarrow> ledger_writes i evs = []) \<and>
         (\<forall>i. ledger_writes i evs = [] \<or> started_then_finished (ledger_writes i evs))"
proof (induction pids arbitrary: w)
  case Nil
  show ?case by simp
next
  case (Cons pid pids)
  let ?k = "fresh_id (migrations w)"
  let ?w = "after_prediction nm pid w"
  obtain mt n where step: "trace ?w = trace w @
      [MigrationCreate (started_row ?k pid nm), PredictionUpdate pid n, PredictionCount pid,
       MigrationSave (finished_row ?k pid nm mt)]"
    by (simp add: after_prediction_def Let_def)
  from Cons.IH [of ?w] obtain evs where evs: "trace (predictions_loop nm pids ?w) = trace ?w @ evs"
    and old: "\<forall>i. i < Suc ?k \<longrightarrow> ledger_writes i evs = []"
    and ok: "\<forall>i. ledger_writes i evs = [] \<or> started_then_finished (ledger_writes i evs)"
    by (auto simp: after_prediction_frame(1))
  let ?evs = "[MigrationCreate (started_row ?k pid nm), PredictionUpdate pid n, PredictionCount pid,
       MigrationSave (finished_row ?k pid nm mt)] @ evs"
  have "trace (predictions_loop nm (pid # pids) w) = trace w @ ?evs"
    by (simp add: predictions_loop_step evs step)
  moreover have "\<forall>i. i < ?k \<longrightarrow> ledger_writes i ?evs = []"
    using old by simp
  moreover have "\<forall>i. ledger_writes i ?evs = [] \<or> started_then_finished (ledger_writes i ?evs)"
  proof
    fix i
    show "ledger_writes i ?evs = [] \<or> started_then_finished (ledger_writes i ?evs)"
    proof (cases "i = ?k")
      case True
      with old have "ledger_writes i evs = []" by simp
      with True show ?thesis by (simp add: started_then_finished_rows)
    next
      case False
      with ok show ?thesis by simp
    qed
  qed
  ultimately show ?case by blast
qed

lemma calculation_loop_lifecycle:
  "\<exists>evs. trace (snd (calculation_loop utc fs nm ps w)) = trace w @ evs \<and>
         (\<forall>i. i < fresh_id (migrations w) \<longrightarrow> ledger_writes i evs = []) \<and>
         (\<forall>i. ledger_writes i evs = [] \<or> started_then_finished (ledger_writes i evs) \<or>
              isl (fst (calculation_loop utc fs nm ps w)) \<and> started_only (ledger_writes i evs))"
proof -
  let ?k = "fresh_id (migrations w)"
  from first_raise_split [of utc fs w ps] show ?thesis
  proof (elim disjE exE conjE)
    assume "list_all (returns_for utc fs w) ps"
    then show ?thesis
      by (simp add: calculation_loop_all_return [of utc fs w ps nm] ledger_writes_calculation_events
          started_then_finished_def started_row_def finished_calculation_def finished_row_def)
  next
    fix before p rest e
    assume ps: "ps = before @ p # rest" and "list_all (returns_for utc fs w) before"
      and "utc p (project_tasks w (project_id p)) fs = Inl e"
    then have "calculation_loop utc fs nm ps w =
           (Inl e,
            w\<lparr>migrations := migrations w @ calculation_rows utc fs nm w ?k before
                    @ [started_row (?k + length before) (project_id p) nm],
              trace := trace w @ calculation_events utc fs nm w ?k before
                    @ [MigrationCreate (started_row (?k + length before) (project_id p) nm),
                       TaskCount (project_id p), Recompute (project_id p) fs]\<rparr>)"
      by (simp add: calculation_loop_first_raise)
    then show ?thesis
      by (simp add: ledger_writes_calculation_events
          started_then_finished_def started_only_def started_row_def finished_calculation_def
          finished_row_def)
  qed
qed

subsection \<open>No job touches a row it did not create\<close>

lemma calculation_loop_keeps_rows:
  "\<exists>new. migrations (snd (calculation_loop utc fs nm ps w)) = migrations w @ new"
  using first_raise_split [of utc fs w ps]
  by (auto simp: calculation_loop_all_return calculation_loop_first_raise)

lemma predictions_loop_keeps_rows:
  "\<exists>new. migrations (predictions_loop nm pids w) = migrations w @ new"
proof (induction pids arbitrary: w)
  case Nil
  show ?case by simp
next
  case (Cons pid pids)
  from Cons.IH [of "after_prediction nm pid w"] after_prediction_frame(2) [of nm pid w]
  show ?case by (auto simp: predictions_loop_step)
qed

lemma run_job_keeps_rows:
  "\<exists>new. migrations (snd (run_job utc j w)) = migrations w @ new"
  by (cases j)
     (simp_all add: run_job_def redis_job_for_calculation_def calculation_loop_keeps_rows
        underscore_fill_annotations_project_def underscore_fill_predictions_project_def
        predictions_loop_keeps_rows log_event_def)

section \<open>Submissions\<close>

lemma submitted_simps [simp]:
  "submitted [] = []"
  "submitted (xs @ ys) = submitted xs @ submitted ys"
  "submitted (Submit s # evs) = s # submitted evs"
  "submitted (MigrationCreate r # evs) = submitted evs"
  "submitted (MigrationSave r # evs) = submitted evs"
  "submitted (TaskCount a # evs) = submitted evs"
  "submitted (TaskFetch a # evs) = submitted evs"
  "submitted (Serialize a # evs) = submitted evs"
  "submitted (Convert fmt a # evs) = submitted evs"
  "submitted (FileWrite fmt # evs) = submitted evs"
  "submitted (Recompute a b # evs) = submitted evs"
  "submitted (AnnotationUpdate a c # evs) = submitted evs"
  "submitted (PredictionUpdate a c # evs) = submitted evs"
  "submitted (PredictionCount a # evs) = submitted evs"
  by (simp_all add: submitted_def)

lemma submitted_calculation_events [simp]:
  "submitted (calculation_events utc fs nm w k ps) = []"
  by (induction ps arbitrary: k) simp_all

lemma calculation_loop_submits_nothing:
  "submitted (trace (snd (calculation_loop utc fs nm ps w))) = submitted (trace w)"
  using first_raise_split [of utc fs w ps]
  by (auto simp: calculation_loop_all_return calculation_loop_first_raise)

lemma after_prediction_submits_nothing:
  "submitted (trace (after_prediction nm pid w)) = submitted (trace w)"
  by (simp add: after_prediction_def Let_def)

lemma predictions_loop_submits_nothing:
  "submitted (trace (predictions_loop nm pids w)) = submitted (trace w)"
  by (induction pids arbitrary: w)
     (simp_all add: predictions_loop_step after_prediction_submits_nothing)

lemma run_job_submits_nothing:
  "submitted (trace (snd (run_job utc j w))) = submitted (trace w)"
  by (cases j)
     (simp_all add: run_job_def redis_job_for_calculation_def calculation_loop_submits_nothing
        underscore_fill_annotations_project_def underscore_fill_predictions_project_def
        predictions_loop_submits_nothing log_event_def)

lemma start_job_submits_once:
  "submitted (trace (snd (start_job_async_or_sync utc j redis qn timeout w))) =
     submitted (trace w) @ [\<lparr>submitted_job = j, queue_name = qn, job_timeout = timeout\<rparr>]"
  by (simp add: start_job_async_or_sync_def Let_def log_event_def run_job_submits_nothing)

lemma predictions_loop_foldl:
  "predictions_loop nm pids w = foldl (\<lambda>w pid. after_prediction nm pid w) w pids"
  by (induction pids arbitrary: w) (simp_all add: predictions_loop_step)

subsection \<open>The sweep over the organizations\<close>

lemma stats_loop_async:
  "redis_connected w \<and> redis \<Longrightarrow>
   stats_loop utc fs redis nm orgs w =
     (Inr (), w\<lparr>queue := queue w @ map (sweep_submission fs nm) orgs,
                trace := trace w @ map (\<lambda>org_id. Submit (sweep_submission fs nm org_id)) orgs\<rparr>)"
  by (induction orgs arbitrary: w)
     (simp_all add: start_job_async_or_sync_def Let_def log_event_def sweep_submission_def)

lemma stats_loop_submitted:
  "stats_loop utc fs redis nm orgs w = (Inr (), w') \<Longrightarrow>
   submitted (trace w') = submitted (trace w) @ map (sweep_submission fs nm) orgs"
proof (induction orgs arbitrary: w)
  case Nil
  then show ?case by simp
next
  case (Cons org_id orgs)
  obtain r w1 where s: "start_job_async_or_sync utc (Job_redis_job_for_calculation org_id fs nm)
      redis ''critical'' (Some (3600 * 24)) w = (r, w1)"
    by (cases "start_job_async_or_sync utc (Job_redis_job_for_calculation org_id fs nm)
      redis ''critical'' (Some (3600 * 24)) w")
  with Cons.prems have rest: "stats_loop utc fs redis nm orgs w1 = (Inr (), w')"
    by (cases r) simp_all
  from start_job_submits_once [of utc "Job_redis_job_for_calculation org_id fs nm" redis
      "''critical''" "Some (3600 * 24)" w] s
  have "submitted (trace w1) = submitted (trace w) @ [sweep_submission fs nm org_id]"
    by (simp add: sweep_submission_def)
  with Cons.IH [OF rest] show ?case by simp
qed

lemma calculation_loop_returns:
  assumes "\<forall>p ts. \<not> isl (utc p ts fs)"
  shows "fst (calculation_loop utc fs nm ps w) = Inr ()"
proof -
  from assms have "list_all (returns_for utc fs w) ps"
    by (simp add: returns_for_def list_all_iff)
  then show ?thesis by (simp add: calculation_loop_all_return)
qed

lemma stats_loop_returns:
  assumes "\<forall>p ts. \<not> isl (utc p ts fs)"
  shows "fst (stats_loop utc fs redis nm orgs w) = Inr ()"
proof (induction orgs arbitrary: w)
  case Nil
  show ?case by simp
next
  case (Cons org_id orgs)
  have "fst (start_job_async_or_sync utc (Job_redis_job_for_calculation org_id fs nm)
      redis ''critical'' (Some (3600 * 24)) w) = Inr ()"
    using assms
    by (simp add: start_job_async_or_sync_def Let_def run_job_def redis_job_for_calculation_def
        calculation_loop_returns)
  then obtain w1 where "start_job_async_or_sync utc (Job_redis_job_for_calculation org_id fs nm)
      redis ''critical'' (Some (3600 * 24)) w = (Inr (), w1)"
    by (cases "start_job_async_or_sync utc (Job_redis_job_for_calculation org_id fs nm)
      redis ''critical'' (Some (3600 * 24)) w") simp
  then show ?case by (simp add: Cons.IH)
qed

section \<open>The annotation backfill\<close>

lemma task_in_project_cong: "tasks w' = tasks w \<Longrightarrow> task_in_project w' = task_in_project w"
  by (simp add: task_in_project_def fun_eq_iff)

lemma backfilled_cong: "tasks w' = tasks w \<Longrightarrow> backfilled w' = backfilled w"
  by (simp add: backfilled_def fun_eq_iff task_in_project_cong [of w' w])

lemma backfilled_task [simp]: "annotation_task_id (backfilled w pids a) = annotation_task_id a"
  by (simp add: backfilled_def)

lemma backfilled_Nil [simp]: "backfilled w [] a = a"
  by (simp add: backfilled_def)

lemma backfilled_Cons:
  "backfilled w (pid # pids) a =
     backfilled w pids (if task_in_project w pid (annotation_task_id a)
                        then a\<lparr>annotation_project_id := Some pid\<rparr> else a)"
  by (simp add: backfilled_def)

lemma foldl_last_match_start:
  assumes "\<exists>pid\<in>set pids. c pid"
  shows "foldl (\<lambda>v pid. if c pid then Some pid else v) v pids =
         foldl (\<lambda>v pid. if c pid then Some pid else v) v' pids"
  using assms
proof (induction pids arbitrary: v v')
  case Nil
  then show ?case by simp
next
  case (Cons p ps)
  show ?case
  proof (cases "c p")
    case True
    then show ?thesis by simp
  next
    case False
    with Cons.prems have "\<exists>pid\<in>set ps. c pid" by simp
    then have "foldl (\<lambda>v pid. if c pid then Some pid else v) v ps =
               foldl (\<lambda>v pid. if c pid then Some pid else v) v' ps"
      by (rule Cons.IH)
    with False show ?thesis by simp
  qed
qed

lemma foldl_no_match:
  "\<not> (\<exists>pid\<in>set pids. c pid) \<Longrightarrow> foldl (\<lambda>v pid. if c pid then Some pid else v) v pids = v"
  by (induction pids arbitrary: v) auto

lemma backfilled_idem: "backfilled w pids (backfilled w pids a) = backfilled w pids a"
proof -
  let ?c = "\<lambda>pid. task_in_project w pid (annotation_task_id a)"
  let ?F = "\<lambda>v pid. if ?c pid then Some pid else v"
  have "foldl ?F (foldl ?F (annotation_project_id a) pids) pids = foldl ?F (annotation_project_id a) pids"
  proof (cases "\<exists>pid\<in>set pids. ?c pid")
    case True
    then show ?thesis by (rule foldl_last_match_start)
  next
    case False
    then have "\<And>v. foldl ?F v pids = v"
      by (rule foldl_no_match)
    then show ?thesis by simp
  qed
  then show ?thesis by (simp add: backfilled_def)
qed

lemma annotation_count_map:
  "(\<And>a. annotation_task_id (f a) = annotation_task_id a) \<Longrightarrow> tasks w' = tasks w \<Longrightarrow>
   annotations w' = map f (annotations w) \<Longrightarrow> annotation_count w' pid = annotation_count w pid"
  by (simp add: annotation_count_def filter_map comp_def task_in_project_cong [of w' w])

lemma annotations_loop_sync_step:
  "\<not> redis_connected w \<Longrightarrow>
   annotations_loop utc (pid # rest) w = annotations_loop utc rest (after_annotations pid w)"
  by (simp add: start_job_async_or_sync_def run_job_def underscore_fill_annotations_project_def
      log_event_def Let_def task_in_project_def after_annotations_def annotation_count_def
      annotation_submission_def)

lemma annotations_loop_sync:
  "\<not> redis_connected w \<Longrightarrow>
   annotations_loop utc pids w =
     (Inr (), w\<lparr>annotations := map (backfilled w pids) (annotations w),
                trace := trace w @ concat (map (\<lambda>pid. [Submit (annotation_submission pid),
                                                         AnnotationUpdate pid (annotation_count w pid)])
                                               pids)\<rparr>)"
proof (induction pids arbitrary: w)
  case Nil
  then show ?case by simp
next
  case (Cons pid pids)
  let ?w = "after_annotations pid w"
  have t: "tasks ?w = tasks w" and r: "\<not> redis_connected ?w"
    using Cons.prems by (simp_all add: after_annotations_def)
  have c: "\<And>q. annotation_count ?w q = annotation_count w q"
    by (rule annotation_count_map [where f = "\<lambda>a. if task_in_project w pid (annotation_task_id a)
                                 then a\<lparr>annotation_project_id := Some pid\<rparr> else a"])
       (simp_all add: after_annotations_def)
  show ?case
    using Cons.prems
    by (simp add: annotations_loop_sync_step Cons.IH [OF r] c backfilled_cong [OF t]
        del: annotations_loop.simps)
       (simp add: after_annotations_def backfilled_Cons)
qed

lemma annotations_loop_async:
  "redis_connected w \<Longrightarrow>
   annotations_loop utc pids w =
     (Inr (), w\<lparr>queue := queue w @ map annotation_submission pids,
                trace := trace w @ map (\<lambda>pid. Submit (annotation_submission pid)) pids\<rparr>)"
  by (induction pids arbitrary: w)
     (simp_all add: start_job_async_or_sync_def Let_def log_event_def annotation_submission_def)

lemma annotation_updates_simps [simp]:
  "annotation_updates [] = []"
  "annotation_updates (xs @ ys) = annotation_updates xs @ annotation_updates ys"
  "annotation_updates (AnnotationUpdate pid n # evs) = (pid, n) # annotation_updates evs"
  "annotation_updates (Submit s # evs) = annotation_updates evs"
  by (simp_all add: annotation_updates_def)

lemma annotation_updates_submits:
  "annotation_updates (map (\<lambda>pid. Submit (f pid)) pids) = []"
  by (induction pids) simp_all

lemma annotation_updates_run:
  "annotation_updates (concat (map (\<lambda>pid. [Submit (f pid), AnnotationUpdate pid (g pid)]) pids)) =
     map (\<lambda>pid. (pid, g pid)) pids"
  by (induction pids) simp_all

lemma annotation_updates_run_events:
  "annotation_updates (annotation_run_events w) =
     map (\<lambda>pid. (pid, annotation_count w pid)) (map project_id (projects w))"
  unfolding annotation_run_events_def by (rule annotation_updates_run)

lemma fill_annotations_project_sync:
  "\<not> redis_connected w \<Longrightarrow> fill_annotations_project utc w = (Inr (), after_annotation_run w)"
  by (simp add: fill_annotations_project_def annotations_loop_sync after_annotation_run_def
      annotation_run_events_def)

lemma after_annotation_run_frame:
  "tasks (after_annotation_run w) = tasks w"
  "projects (after_annotation_run w) = projects w"
  "redis_connected (after_annotation_run w) = redis_connected w"
  "trace (after_annotation_run w) = trace w @ annotation_run_events w"
  by (simp_all add: after_annotation_run_def)

lemma annotation_count_after_run:
  "annotation_count (after_annotation_run w) pid = annotation_count w pid"
  by (rule annotation_count_map [where f = "backfilled w (map project_id (projects w))"])
     (simp_all add: after_annotation_run_def)

lemma annotation_run_events_after_run:
  "annotation_run_events (after_annotation_run w) = annotation_run_events w"
  by (simp add: annotation_run_events_def annotation_count_after_run after_annotation_run_frame)

lemma after_annotation_run_twice:
  "after_annotation_run (after_annotation_run w) =
     (after_annotation_run w)\<lparr>trace := trace (after_annotation_run w) @ annotation_run_events w\<rparr>"
proof -
  have "backfilled (after_annotation_run w) = backfilled w"
    by (rule backfilled_cong) (rule after_annotation_run_frame)
  then have "after_annotation_run (after_annotation_run w) =
      (after_annotation_run w)\<lparr>annotations := map (backfilled w (map project_id (projects w)))
                                      (annotations (after_annotation_run w)),
          trace := trace (after_annotation_run w) @ annotation_run_events w\<rparr>"
    by (simp add: after_annotation_run_def [of "after_annotation_run w"]
        annotation_run_events_after_run after_annotation_run_frame)
  also have "map (backfilled w (map project_id (projects w))) (annotations (after_annotation_run w)) =
      annotations (after_annotation_run w)"
    by (simp add: after_annotation_run_def backfilled_idem)
  finally show ?thesis by simp
qed

lemma fill_annotations_project_async:
  "redis_connected w \<Longrightarrow>
   fill_annotations_project utc w =
     (Inr (), w\<lparr>queue := queue w @ map annotation_submission (map project_id (projects w)),
                trace := trace w @ map (\<lambda>pid. Submit (annotation_submission pid))
                                       (map project_id (projects w))\<rparr>)"
  by (simp add: fill_annotations_project_def annotations_loop_async)

lemma underscore_fill_annotations_project_idem:
  "database (underscore_fill_annotations_project pid (underscore_fill_annotations_project pid w)) =
   database (underscore_fill_annotations_project pid w)"
  by (simp add: underscore_fill_annotations_project_def database_def log_event_def
      task_in_project_def comp_def)

section \<open>The export\<close>

lemma batch_Nil [simp]: "batch [] n = []"
  by (simp add: batch.simps)

lemma batch_Cons: "0 < n \<Longrightarrow> xs \<noteq> [] \<Longrightarrow> batch xs n = take n xs # batch (drop n xs) n"
  by (simp add: batch.simps [of xs n])

lemma concat_batch: "0 < n \<Longrightarrow> concat (batch xs n) = xs"
proof (induction xs n rule: batch.induct)
  case (1 xs n)
  show ?case
  proof (cases "xs = []")
    case True
    then show ?thesis by simp
  next
    case False
    with "1.prems" "1.IH" have "concat (batch (drop n xs) n) = drop n xs" by simp
    with False "1.prems" show ?thesis by (simp add: batch_Cons)
  qed
qed

lemma batch_sizes:
  "0 < n \<Longrightarrow> b \<in> set (batch xs n) \<Longrightarrow> 0 < length b \<and> length b \<le> n"
proof (induction xs n arbitrary: b rule: batch.induct)
  case (1 xs n)
  show ?case
  proof (cases "xs = []")
    case True
    with "1.prems" show ?thesis by simp
  next
    case False
    with "1.prems" have "b = take n xs \<or> b \<in> set (batch (drop n xs) n)"
      by (simp add: batch_Cons)
    then show ?thesis
    proof
      assume "b = take n xs"
      with False "1.prems" show ?thesis by simp
    next
      assume "b \<in> set (batch (drop n xs) n)"
      with False "1.prems" "1.IH" show ?thesis by simp
    qed
  qed
qed

lemma foldl_append_concat:
  "foldl (\<lambda>acc b. acc @ data b) acc bs = acc @ concat (map data bs)"
  by (induction bs arbitrary: acc) simp_all

lemma export_cycle_concat: "export_cycle data bs = concat (map data bs)"
  by (simp add: export_cycle_def foldl_append_concat)

lemma ExportDataSerializer_data_concat:
  "concat (map (ExportDataSerializer_data ext opts w) bs) =
     ExportDataSerializer_data ext opts w (concat bs)"
  by (induction bs) (simp_all add: ExportDataSerializer_data_def)

lemma export_cycle_batch:
  "0 < n \<Longrightarrow>
   export_cycle (ExportDataSerializer_data ext opts w) (batch ts n) =
     ExportDataSerializer_data ext opts w ts"
  by (simp add: export_cycle_concat ExportDataSerializer_data_concat concat_batch)

lemma length_ExportDataSerializer_data [simp]:
  "length (ExportDataSerializer_data ext opts w ts) = length ts"
  by (simp add: ExportDataSerializer_data_def)

lemma Project_objects_get_id: "Project_objects_get pid w = Inr p \<Longrightarrow> project_id p = pid"
proof -
  assume a: "Project_objects_get pid w = Inr p"
  then have "filter (\<lambda>p. project_id p = pid) (projects w) = [p]"
    by (auto simp: Project_objects_get_def split: list.splits)
  then have "p \<in> set (filter (\<lambda>p. project_id p = pid) (projects w))" by simp
  then show ?thesis by simp
qed

lemma ExportDataSerializer_data_cong:
  "annotations w' = annotations w \<Longrightarrow> predictions w' = predictions w \<Longrightarrow>
   ExportDataSerializer_data ext opts w' = ExportDataSerializer_data ext opts w"
  by (simp add: ExportDataSerializer_data_def fun_eq_iff)

lemma export_project_not_found:
  "Project_objects_get pid w = Inl e \<Longrightarrow>
   export_project ext pid export_format path serializer_context w = (Inl e, w)"
  by (simp add: export_project_def)

lemma export_project_unsupported:
  "Project_objects_get pid w = Inr p \<Longrightarrow> upper export_format \<notin> set (get_export_formats ext p) \<Longrightarrow>
   export_project ext pid export_format path serializer_context w =
     (Inl (AssertionError (get_export_formats ext p)), w)"
  by (simp add: export_project_def)

lemma export_project_bad_context:
  assumes "Project_objects_get pid w = Inr p"
      and "upper export_format \<in> set (get_export_formats ext p)"
      and "parsed_context ext serializer_context = Inl e"
  shows "export_project ext pid export_format path serializer_context w =
           (Inl e, w\<lparr>trace := trace w @ [TaskCount pid]\<rparr>)"
  using assms Project_objects_get_id [OF assms(1)]
  by (simp add: export_project_def parsed_context_def log_event_def Let_def)

lemma export_project_converted:
  assumes "Project_objects_get pid w = Inr p"
      and "upper export_format \<in> set (get_export_formats ext p)"
      and "parsed_context ext serializer_context = Inr parsed"
  shows "export_project ext pid export_format path serializer_context w =
           (let w4 = w\<lparr>trace := trace w @ export_events w pid export_format\<rparr>
            in case generate_export_file ext p (export_records ext parsed w pid)
                      (upper export_format) (CONVERTER_DOWNLOAD_RESOURCES ext) of
                 Inl e \<Rightarrow> (Inl e, w4)
               | Inr (export_stream, content_type, filename) \<Rightarrow>
                   if isdir w (resolved_path w path filename)
                   then (Inl (IsADirectoryError (resolved_path w path filename)), w4)
                   else if open_refused w (resolved_path w path filename)
                   then (Inl (OSError (resolved_path w path filename)), w4)
                   else (Inr (resolved_path w path filename),
                         w\<lparr>files := (files w)(resolved_path w path filename \<mapsto> export_stream),
                           trace := trace w @ export_events w pid export_format
                                    @ [FileWrite (resolved_path w path filename)]\<rparr>))"
proof -
  have id: "project_id p = pid" using assms(1) by (rule Project_objects_get_id)
  have c: "ExportDataSerializer_data ext (get_export_serializer_option ext parsed)
             (w\<lparr>trace := trace w @ [TaskCount pid, TaskFetch pid]\<rparr>) =
           ExportDataSerializer_data ext (get_export_serializer_option ext parsed) w"
    by (rule ExportDataSerializer_data_cong) simp_all
  have n: "export_cycle (ExportDataSerializer_data ext (get_export_serializer_option ext parsed) w)
             (batch (project_tasks w pid) 1000) = export_records ext parsed w pid"
    by (simp add: export_cycle_batch export_records_def)
  from assms id show ?thesis
    by (simp add: export_project_def parsed_context_def log_event_def Let_def project_tasks_def [symmetric]
        c n export_events_def resolved_path_def export_records_def
        split: sum.splits prod.splits)
qed

section \<open>The example worlds, run\<close>

lemma example_projects:
  "projects_of_organization example_world 1 =
     [\<lparr>project_id = 2, organization_id = 1, title = ''P2'', updated_at = 20\<rparr>,
      \<lparr>project_id = 1, organization_id = 1, title = ''P1'', updated_at = 10\<rparr>]"
  by (simp add: projects_of_organization_def example_world_def)

lemma example_world_empty:
  "migrations example_world = []" "trace example_world = []" "queue example_world = []"
  by (simp_all add: example_world_def)

lemma fresh_id_Nil: "fresh_id [] = 1"
  by (simp add: fresh_id_def)

lemma example_world_tables:
  "projects example_world =
     [\<lparr>project_id = 1, organization_id = 1, title = ''P1'', updated_at = 10\<rparr>,
      \<lparr>project_id = 2, organization_id = 1, title = ''P2'', updated_at = 20\<rparr>,
      \<lparr>project_id = 3, organization_id = 2, title = ''P3'', updated_at = 5\<rparr>]"
  "tasks example_world =
     [\<lparr>task_id = 1, task_project_id = 1\<rparr>, \<lparr>task_id = 2, task_project_id = 1\<rparr>,
      \<lparr>task_id = 3, task_project_id = 3\<rparr>]"
  "annotations example_world =
     [\<lparr>annotation_id = 1, annotation_task_id = 1, annotation_project_id = None\<rparr>,
      \<lparr>annotation_id = 2, annotation_task_id = 3, annotation_project_id = Some 1\<rparr>]"
  "predictions example_world =
     [\<lparr>prediction_id = 1, prediction_task_id = 2, prediction_project_id = None\<rparr>,
      \<lparr>prediction_id = 2, prediction_task_id = 3, prediction_project_id = Some 1\<rparr>]"
  "organizations example_world = [1, 2]"
  "redis_connected example_world = False"
  by (simp_all add: example_world_def)

lemma example_world_predictions_run:
  "underscore_fill_predictions_project ''0043'' example_world =
     example_world
       \<lparr>predictions :=
          [\<lparr>prediction_id = 1, prediction_task_id = 2, prediction_project_id = Some 1\<rparr>,
           \<lparr>prediction_id = 2, prediction_task_id = 3, prediction_project_id = Some 3\<rparr>],
        migrations :=
          [finished_row 1 1 ''0043'' [(''predictions_processed'', 1), (''total_project_predictions'', 2)],
           finished_row 2 2 ''0043'' [(''predictions_processed'', 0), (''total_project_predictions'', 0)],
           finished_row 3 3 ''0043'' [(''predictions_processed'', 1), (''total_project_predictions'', 1)]],
        trace :=
          [MigrationCreate (started_row 1 1 ''0043''), PredictionUpdate 1 1, PredictionCount 1,
           MigrationSave (finished_row 1 1 ''0043''
              [(''predictions_processed'', 1), (''total_project_predictions'', 2)]),
           MigrationCreate (started_row 2 2 ''0043''), PredictionUpdate 2 0, PredictionCount 2,
           MigrationSave (finished_row 2 2 ''0043''
              [(''predictions_processed'', 0), (''total_project_predictions'', 0)]),
           MigrationCreate (started_row 3 3 ''0043''), PredictionUpdate 3 1, PredictionCount 3,
           MigrationSave (finished_row 3 3 ''0043''
              [(''predictions_processed'', 1), (''total_project_predictions'', 1)])]\<rparr>"
  by (simp add: underscore_fill_predictions_project_def example_world_tables predictions_loop_step
      after_prediction_def Let_def task_in_project_def example_world_empty fresh_id_def
      finished_row_def started_row_def numeral_2_eq_2 numeral_3_eq_3)

lemma example_world_calculation_run:
  "redis_job_for_calculation counts_all 1 False ''run-1'' example_world =
     (Inr (),
      example_world
        \<lparr>migrations :=
           [finished_row 1 2 ''run-1'' [(''tasks_processed'', 0), (''total_project_tasks'', 0)],
            finished_row 2 1 ''run-1'' [(''tasks_processed'', 2), (''total_project_tasks'', 2)]],
         trace :=
           [MigrationCreate (started_row 1 2 ''run-1''), TaskCount 2, Recompute 2 False, TaskCount 2,
            MigrationSave (finished_row 1 2 ''run-1''
               [(''tasks_processed'', 0), (''total_project_tasks'', 0)]),
            MigrationCreate (started_row 2 1 ''run-1''), TaskCount 1, Recompute 1 False, TaskCount 1,
            MigrationSave (finished_row 2 1 ''run-1''
               [(''tasks_processed'', 2), (''total_project_tasks'', 2)])]\<rparr>)"
proof -
  have r: "list_all (returns_for counts_all False example_world)
             (projects_of_organization example_world 1)"
    by (simp add: returns_for_def counts_all_def list_all_iff)
  have t: "project_tasks example_world 2 = []"
    "project_tasks example_world 1 = [\<lparr>task_id = 1, task_project_id = 1\<rparr>, \<lparr>task_id = 2, task_project_id = 1\<rparr>]"
    by (simp_all add: project_tasks_def example_world_def)
  show ?thesis
    unfolding redis_job_for_calculation_def
      calculation_loop_all_return [where utc = counts_all and nm = "''run-1''", OF r]
    unfolding example_projects example_world_empty fresh_id_Nil
    by (simp add: finished_calculation_def calculation_meta_def counts_all_def t del: One_nat_def)
qed

lemma small_world_raise:
  "redis_job_for_calculation (\<lambda>p ts fs. Inl (Raised ''boom'')) 1 False ''run-1'' small_world =
     (Inl (Raised ''boom''),
      small_world\<lparr>migrations := [started_row 1 1 ''run-1''],
                   trace := [MigrationCreate (started_row 1 1 ''run-1''), TaskCount 1,
                             Recompute 1 False]\<rparr>)"
  by (simp add: redis_job_for_calculation_def projects_of_organization_def small_world_def
      calculation_loop_raise fresh_id_def)

lemma example_world_annotation_counts:
  "annotation_count example_world 1 = 1"
  "annotation_count example_world 2 = 0"
  "annotation_count example_world 3 = 1"
  "annotation_count example_world (Suc 0) = Suc 0"
  by (simp_all add: annotation_count_def task_in_project_def example_world_tables)

lemma example_world_annotation_run:
  "annotations (after_annotation_run example_world) =
     [\<lparr>annotation_id = 1, annotation_task_id = 1, annotation_project_id = Some 1\<rparr>,
      \<lparr>annotation_id = 2, annotation_task_id = 3, annotation_project_id = Some 3\<rparr>]"
  by (simp add: after_annotation_run_def backfilled_def task_in_project_def example_world_tables)

lemma example_world_organization_ids: "rev (sort (organizations example_world)) = [2, 1]"
  by (simp add: example_world_tables)

lemma example_world_organization_2:
  "projects_of_organization (log_event e example_world) 2 =
     [\<lparr>project_id = 3, organization_id = 2, title = ''P3'', updated_at = 5\<rparr>]"
  by (simp add: projects_of_organization_def log_event_def example_world_tables)

lemma batch_example: "batch [a, b, c, d, e] 2 = [[a, b], [c, d], [e]]"
  by (simp add: batch_Cons)

lemma upper_mixed: "upper ''Yolo-v8.z'' = ''YOLO-V8.Z''"
  by (simp add: upper_def upper_char_def)

lemma example_collaborators_simps:
  "get_export_formats example_collaborators p = [''JSON'', ''CSV'']"
  "json_loads example_collaborators ''{}'' = Inr (PyObj ())"
  "json_loads example_collaborators ''{not json'' = Inl (Raised ''JSONDecodeError'')"
  "generate_export_file example_collaborators p records fmt download =
     Inr (replicate (length records) CHR ''x'', ''application/json'', ''export.json'')"
  by (simp_all add: example_collaborators_def)

lemma example_world_project_1:
  "Project_objects_get 1 example_world =
     Inr \<lparr>project_id = 1, organization_id = 1, title = ''P1'', updated_at = 10\<rparr>"
  by (simp add: Project_objects_get_def example_world_tables)

lemma example_world_files:
  "isdir example_world = (\<lambda>p. p = ''/tmp'')"
  "open_refused example_world = (\<lambda>p. False)"
  "files example_world = (\<lambda>p. None)"
  by (simp_all add: example_world_def)

lemma upper_examples:
  "upper ''json'' = ''JSON''" "upper ''yolo'' = ''YOLO''"
  by (simp_all add: upper_def upper_char_def)

lemma example_world_export_records:
  "export_records example_collaborators PyNone example_world 1 = [2, 3]"
  by (simp add: export_records_def ExportDataSerializer_data_def project_tasks_def
      example_world_tables example_collaborators_def)

lemma example_world_export_events:
  "export_events example_world 1 ''json'' =
     [TaskCount 1, TaskFetch 1, Serialize 2, Convert ''JSON'' 2]"
  by (simp add: export_events_def project_tasks_def example_world_tables batch_Cons upper_examples)

lemma example_resolved_paths:
  "resolved_path example_world ''/tmp'' ''export.json'' = ''/tmp/export.json''"
  "resolved_path (example_world\<lparr>files := [''/out.json'' \<mapsto> ''old'']\<rparr>) ''/out.json'' ''export.json'' =
     ''/out.json''"
  by (simp_all add: resolved_path_def os_path_join_def example_world_files)

lemma example_world_calculation:
  "migrations (snd (redis_job_for_calculation (\<lambda>p ts fs. Inr (int (length ts))) 1 False ''run-1''
      example_world)) =
   [finished_row 1 2 ''run-1'' [(''tasks_processed'', 0), (''total_project_tasks'', 0)],
    finished_row 2 1 ''run-1'' [(''tasks_processed'', 2), (''total_project_tasks'', 2)]]"
  by (simp add: calculation_loop.simps(2) redis_job_for_calculation_def projects_of_organization_def
      example_world_def AsyncMigrationStatus_objects_create_def save_def log_event_def
      project_tasks_def fresh_id_def finished_row_def Let_def)

lemma small_world_calculation:
  "migrations (snd (redis_job_for_calculation (\<lambda>p ts fs. Inr 5) 1 False ''run-1'' small_world)) =
   [finished_row 1 1 ''run-1'' [(''tasks_processed'', 5), (''total_project_tasks'', 0)]]"
  by (simp add: calculation_loop.simps(2) redis_job_for_calculation_def projects_of_organization_def
      small_world_def AsyncMigrationStatus_objects_create_def save_def log_event_def
      project_tasks_def fresh_id_def finished_row_def Let_def)

lemma example_world_job_twice:
  "annotation_updates
     (trace (underscore_fill_annotations_project 1
               (underscore_fill_annotations_project 1 example_world))) = [(1, 1), (1, 1)]"
  by (simp add: underscore_fill_annotations_project_def log_event_def task_in_project_def
      example_world_tables example_world_empty)

section \<open>The claims\<close>

text \<open>
  C7, as the code has it. The worker stores the number the recomputer returned beside
  the project's task count and compares nothing. So the processed count of a FINISHED
  record the worker wrote is at most its total whenever the recomputer keeps its
  contract and reports no more tasks than it was handed: every row the job adds to the
  ledger that is FINISHED holds the two counts in that order.
\<close>

theorem recompute_processed_le_total:
  assumes "counts_at_most_given utc"
  shows "\<exists>new. migrations (snd (redis_job_for_calculation utc org_id fs nm w)) = migrations w @ new \<and>
           (\<forall>r\<in>set new. status r = STATUS_FINISHED \<longrightarrow> processed_le_total r)"
  unfolding redis_job_for_calculation_def using assms by (rule calculation_loop_new_rows)

theorem recompute_processed_le_total_witness:
  "counts_at_most_given (\<lambda>p ts fs. Inr (int (length ts))) \<and>
   processed_le_total
     (finished_row 1 2 ''run-1'' [(''tasks_processed'', 0), (''total_project_tasks'', 0)]) \<and>
   processed_le_total
     (finished_row 2 1 ''run-1'' [(''tasks_processed'', 2), (''total_project_tasks'', 2)])"
proof -
  have c: "counts_at_most_given (\<lambda>p ts fs. Inr (int (length ts)))"
    by (simp add: counts_at_most_given_def)
  have "migrations example_world = []"
    by (simp add: example_world_def)
  with recompute_processed_le_total [OF c, of 1 False "''run-1''" example_world]
  have "\<forall>r\<in>set [finished_row 1 2 ''run-1'' [(''tasks_processed'', 0), (''total_project_tasks'', 0)],
                  finished_row 2 1 ''run-1'' [(''tasks_processed'', 2), (''total_project_tasks'', 2)]].
          status r = STATUS_FINISHED \<longrightarrow> processed_le_total r"
    by (simp only: example_world_calculation) simp
  then show ?thesis using c by (simp add: finished_row_def)
qed

text \<open>
  C7 fails as the claim states it, for "every value returned by the external counter
  recomputer": a recomputer that reports five tasks for a project that has none gets a
  FINISHED record with processed 5 and total 0.
\<close>

theorem recompute_processed_exceeds_total:
  "\<exists>r \<in> set (migrations (snd (redis_job_for_calculation (\<lambda>p ts fs. Inr 5) 1 False ''run-1'' small_world))).
      status r = STATUS_FINISHED \<and> \<not> processed_le_total r"
  by (simp only: small_world_calculation) (simp add: processed_le_total_def finished_row_def)

text \<open>
  C4, as the code has it. Take the events a run of the recompute worker or of the
  prediction backfill adds to the trace, and the writes among them to one ledger key.
  No key that was in the table before the run is written. A key the run writes has one
  of two histories: created as STARTED without metadata and saved once, under the same
  key, as FINISHED with metadata; or, only in a run of the recompute worker that ends in
  an exception, created as STARTED without metadata and not written again. So a record
  is finished at most once and never written after that, a STARTED write carries no
  metadata, and the STARTED write comes before the FINISHED one.
\<close>

theorem ledger_record_lifecycle:
  "(\<exists>evs. trace (snd (redis_job_for_calculation utc org_id fs nm w)) = trace w @ evs \<and>
          (\<forall>r\<in>set (migrations w). ledger_writes (migration_id r) evs = []) \<and>
          (\<forall>i. ledger_writes i evs = [] \<or> started_then_finished (ledger_writes i evs) \<or>
               isl (fst (redis_job_for_calculation utc org_id fs nm w)) \<and>
               started_only (ledger_writes i evs))) \<and>
   (\<exists>evs. trace (underscore_fill_predictions_project nm' w') = trace w' @ evs \<and>
          (\<forall>r\<in>set (migrations w'). ledger_writes (migration_id r) evs = []) \<and>
          (\<forall>i. ledger_writes i evs = [] \<or> started_then_finished (ledger_writes i evs)))"
proof (rule conjI)
  from calculation_loop_lifecycle [of utc fs nm "projects_of_organization w org_id" w]
  show "\<exists>evs. trace (snd (redis_job_for_calculation utc org_id fs nm w)) = trace w @ evs \<and>
          (\<forall>r\<in>set (migrations w). ledger_writes (migration_id r) evs = []) \<and>
          (\<forall>i. ledger_writes i evs = [] \<or> started_then_finished (ledger_writes i evs) \<or>
               isl (fst (redis_job_for_calculation utc org_id fs nm w)) \<and>
               started_only (ledger_writes i evs))"
    unfolding redis_job_for_calculation_def using fresh_id_gt by blast
  from predictions_loop_lifecycle [of nm' "map project_id (projects w')" w']
  show "\<exists>evs. trace (underscore_fill_predictions_project nm' w') = trace w' @ evs \<and>
          (\<forall>r\<in>set (migrations w'). ledger_writes (migration_id r) evs = []) \<and>
          (\<forall>i. ledger_writes i evs = [] \<or> started_then_finished (ledger_writes i evs))"
    unfolding underscore_fill_predictions_project_def using fresh_id_gt by blast
qed

theorem ledger_record_lifecycle_witness:
  "started_then_finished
     (ledger_writes 2 (trace (snd (redis_job_for_calculation counts_all 1 False ''run-1'' example_world)))) \<and>
   started_then_finished
     (ledger_writes 3 (trace (underscore_fill_predictions_project ''0043'' example_world)))"
proof -
  from ledger_record_lifecycle
         [where utc = counts_all and org_id = 1 and fs = False and nm = "''run-1''"
            and w = example_world and nm' = "''0043''" and w' = example_world]
  have a: "\<forall>i. ledger_writes i (trace (snd (redis_job_for_calculation counts_all 1 False ''run-1'' example_world))) = [] \<or>
             started_then_finished (ledger_writes i (trace (snd (redis_job_for_calculation counts_all 1 False ''run-1'' example_world)))) \<or>
             isl (fst (redis_job_for_calculation counts_all 1 False ''run-1'' example_world)) \<and>
             started_only (ledger_writes i (trace (snd (redis_job_for_calculation counts_all 1 False ''run-1'' example_world))))"
    and b: "\<forall>i. ledger_writes i (trace (underscore_fill_predictions_project ''0043'' example_world)) = [] \<or>
             started_then_finished (ledger_writes i (trace (underscore_fill_predictions_project ''0043'' example_world)))"
    by (simp_all add: example_world_empty)
  have "\<not> isl (fst (redis_job_for_calculation counts_all 1 False ''run-1'' example_world))"
    and "ledger_writes 2 (trace (snd (redis_job_for_calculation counts_all 1 False ''run-1'' example_world))) \<noteq> []"
    and "ledger_writes 3 (trace (underscore_fill_predictions_project ''0043'' example_world)) \<noteq> []"
    unfolding example_world_calculation_run example_world_predictions_run by simp_all
  with a b show ?thesis by blast
qed

text \<open>
  C4 fails as the claim states it, "mutated exactly once to FINISHED", for a record whose
  recomputation raises: the record of the one project of the small world is created and
  never written again.
\<close>

theorem ledger_record_never_finished:
  "ledger_writes 1
     (trace (snd (redis_job_for_calculation (\<lambda>p ts fs. Inl (Raised ''boom'')) 1 False ''run-1''
                    small_world))) =
   [MigrationCreate (started_row 1 1 ''run-1'')]"
  unfolding small_world_raise by simp

text \<open>
  C5. Let the recomputer return for the projects \<open>before\<close> and raise \<open>e\<close> for the
  project \<open>p\<close> that comes next in the organization's order. Then the worker ends with
  \<open>e\<close>, and the world it leaves has, after the old ledger rows, one FINISHED row for each
  project of \<open>before\<close> and then the STARTED row of \<open>p\<close>: that row is neither removed nor
  changed, and there is no row and no event for the projects \<open>rest\<close> that follow. Every
  run of the worker that ends in an exception is of this kind. Nor does any later job of
  this module change the row: every job keeps the rows it finds.
\<close>

theorem recompute_raise_leaves_started:
  "(projects_of_organization w org_id = before @ p # rest \<and>
    list_all (returns_for utc fs w) before \<and>
    utc p (project_tasks w (project_id p)) fs = Inl e \<longrightarrow>
      redis_job_for_calculation utc org_id fs nm w =
        (Inl e,
         w\<lparr>migrations := migrations w
                 @ calculation_rows utc fs nm w (fresh_id (migrations w)) before
                 @ [started_row (fresh_id (migrations w) + length before) (project_id p) nm],
           trace := trace w
                 @ calculation_events utc fs nm w (fresh_id (migrations w)) before
                 @ [MigrationCreate (started_row (fresh_id (migrations w) + length before) (project_id p) nm),
                    TaskCount (project_id p), Recompute (project_id p) fs]\<rparr>)) \<and>
   (fst (redis_job_for_calculation utc org_id fs nm w) = Inl e \<longrightarrow>
      (\<exists>before p rest. projects_of_organization w org_id = before @ p # rest \<and>
          list_all (returns_for utc fs w) before \<and>
          utc p (project_tasks w (project_id p)) fs = Inl e)) \<and>
   (\<exists>new. migrations (snd (run_job utc' j w')) = migrations w' @ new)"
proof (intro conjI impI)
  assume a: "projects_of_organization w org_id = before @ p # rest \<and>
    list_all (returns_for utc fs w) before \<and>
    utc p (project_tasks w (project_id p)) fs = Inl e"
  then show "redis_job_for_calculation utc org_id fs nm w =
        (Inl e,
         w\<lparr>migrations := migrations w
                 @ calculation_rows utc fs nm w (fresh_id (migrations w)) before
                 @ [started_row (fresh_id (migrations w) + length before) (project_id p) nm],
           trace := trace w
                 @ calculation_events utc fs nm w (fresh_id (migrations w)) before
                 @ [MigrationCreate (started_row (fresh_id (migrations w) + length before) (project_id p) nm),
                    TaskCount (project_id p), Recompute (project_id p) fs]\<rparr>)"
    by (simp add: redis_job_for_calculation_def calculation_loop_first_raise)
next
  assume "fst (redis_job_for_calculation utc org_id fs nm w) = Inl e"
  then show "\<exists>before p rest. projects_of_organization w org_id = before @ p # rest \<and>
          list_all (returns_for utc fs w) before \<and>
          utc p (project_tasks w (project_id p)) fs = Inl e"
    unfolding redis_job_for_calculation_def by (rule calculation_loop_raise_split)
next
  show "\<exists>new. migrations (snd (run_job utc' j w')) = migrations w' @ new"
    by (rule run_job_keeps_rows)
qed

theorem recompute_raise_leaves_started_witness:
  "redis_job_for_calculation raises_for_2 1 False ''run-1'' example_world =
     (Inl (Raised ''boom''),
      example_world\<lparr>migrations := [started_row 1 2 ''run-1''],
                      trace := [MigrationCreate (started_row 1 2 ''run-1''), TaskCount 2,
                                Recompute 2 False]\<rparr>)"
proof -
  have a: "projects_of_organization example_world 1 =
      [] @ \<lparr>project_id = 2, organization_id = 1, title = ''P2'', updated_at = 20\<rparr>
         # [\<lparr>project_id = 1, organization_id = 1, title = ''P1'', updated_at = 10\<rparr>]"
    by (simp only: example_projects append.simps)
  have b: "list_all (returns_for raises_for_2 False example_world) []"
    by simp
  have c: "raises_for_2 \<lparr>project_id = 2, organization_id = 1, title = ''P2'', updated_at = 20\<rparr>
             (project_tasks example_world
                (project_id \<lparr>project_id = 2, organization_id = 1, title = ''P2'', updated_at = 20\<rparr>))
             False = Inl (Raised ''boom'')"
    by (simp add: raises_for_2_def)
  from recompute_raise_leaves_started
         [where utc = raises_for_2 and w = example_world and org_id = 1 and fs = False
            and before = "[]" and e = "Raised ''boom''" and nm = "''run-1''"
            and p = "\<lparr>project_id = 2, organization_id = 1, title = ''P2'', updated_at = 20\<rparr>"
            and rest = "[\<lparr>project_id = 1, organization_id = 1, title = ''P1'', updated_at = 10\<rparr>]"]
       a b c
  show ?thesis by (simp add: example_world_empty fresh_id_Nil)
qed

text \<open>
  C9. \<^verbatim>\<open>fill_predictions_project\<close> returns and, whether the job is queued or run in
  place, has called the job runner once, with the one job that carries the run name. The
  body of that job is the iteration of \<open>after_prediction\<close> over the identifier of every
  project: each iteration creates a STARTED record with the run name, sets the project
  reference of every prediction whose task belongs to the project in one update, and
  saves the record as FINISHED with the number of rows the update matched as
  \<^verbatim>\<open>predictions_processed\<close> and the number of predictions that then refer to the
  project as \<^verbatim>\<open>total_project_predictions\<close>.
\<close>

theorem prediction_backfill_one_job:
  "fst (fill_predictions_project utc nm w) = Inr () \<and>
   submitted (trace (snd (fill_predictions_project utc nm w))) =
     submitted (trace w) @
       [\<lparr>submitted_job = Job_fill_predictions_project nm, queue_name = ''default'', job_timeout = None\<rparr>] \<and>
   run_job utc (Job_fill_predictions_project nm) w =
     (Inr (), foldl (\<lambda>w pid. after_prediction nm pid w) w (map project_id (projects w)))"
  by (simp add: fill_predictions_project_def start_job_submits_once run_job_def
      underscore_fill_predictions_project_def predictions_loop_foldl)
     (simp add: start_job_async_or_sync_def Let_def run_job_def)

theorem prediction_backfill_one_job_witness:
  "foldl (\<lambda>w pid. after_prediction ''0043'' pid w) example_world [1, 2, 3] =
     example_world
       \<lparr>predictions :=
          [\<lparr>prediction_id = 1, prediction_task_id = 2, prediction_project_id = Some 1\<rparr>,
           \<lparr>prediction_id = 2, prediction_task_id = 3, prediction_project_id = Some 3\<rparr>],
        migrations :=
          [finished_row 1 1 ''0043'' [(''predictions_processed'', 1), (''total_project_predictions'', 2)],
           finished_row 2 2 ''0043'' [(''predictions_processed'', 0), (''total_project_predictions'', 0)],
           finished_row 3 3 ''0043'' [(''predictions_processed'', 1), (''total_project_predictions'', 1)]],
        trace :=
          [MigrationCreate (started_row 1 1 ''0043''), PredictionUpdate 1 1, PredictionCount 1,
           MigrationSave (finished_row 1 1 ''0043''
              [(''predictions_processed'', 1), (''total_project_predictions'', 2)]),
           MigrationCreate (started_row 2 2 ''0043''), PredictionUpdate 2 0, PredictionCount 2,
           MigrationSave (finished_row 2 2 ''0043''
              [(''predictions_processed'', 0), (''total_project_predictions'', 0)]),
           MigrationCreate (started_row 3 3 ''0043''), PredictionUpdate 3 1, PredictionCount 3,
           MigrationSave (finished_row 3 3 ''0043''
              [(''predictions_processed'', 1), (''total_project_predictions'', 1)])]\<rparr>"
proof -
  have "map project_id (projects example_world) = [1, 2, 3]"
    by (simp add: example_world_tables)
  with prediction_backfill_one_job [where utc = counts_all and nm = "''0043''" and w = example_world]
  have "underscore_fill_predictions_project ''0043'' example_world =
          foldl (\<lambda>w pid. after_prediction ''0043'' pid w) example_world [1, 2, 3]"
    by (simp add: run_job_def)
  then show ?thesis by (simp only: example_world_predictions_run [symmetric])
qed

text \<open>
  C8, as the code has it. When the queue backend is connected and \<open>redis\<close> is true,
  \<^verbatim>\<open>calculate_stats_all_orgs\<close> queues one job for each organization, in descending
  order of the identifiers, each with \<open>(org_id, from_scratch, migration_name)\<close>, the
  queue \<^verbatim>\<open>critical\<close> and a timeout of 24 hours, and runs none of them. It returns
  whenever the recomputer never raises. And whenever it returns, in either mode, the
  jobs it has submitted are exactly these, one for each organization.
\<close>

theorem sweep_submits_each_organization:
  "(redis_connected w \<and> redis \<longrightarrow>
      calculate_stats_all_orgs utc fs redis nm w =
        (Inr (), w\<lparr>queue := queue w @ map (sweep_submission fs nm) (rev (sort (organizations w))),
                   trace := trace w @ map (\<lambda>org_id. Submit (sweep_submission fs nm org_id))
                                          (rev (sort (organizations w)))\<rparr>)) \<and>
   ((\<forall>p ts. \<not> isl (utc p ts fs)) \<longrightarrow> fst (calculate_stats_all_orgs utc fs redis nm w) = Inr ()) \<and>
   (fst (calculate_stats_all_orgs utc fs redis nm w) = Inr () \<longrightarrow>
      submitted (trace (snd (calculate_stats_all_orgs utc fs redis nm w))) =
        submitted (trace w) @ map (sweep_submission fs nm) (rev (sort (organizations w))))"
proof (intro conjI impI)
  assume "redis_connected w \<and> redis"
  then show "calculate_stats_all_orgs utc fs redis nm w =
        (Inr (), w\<lparr>queue := queue w @ map (sweep_submission fs nm) (rev (sort (organizations w))),
                   trace := trace w @ map (\<lambda>org_id. Submit (sweep_submission fs nm org_id))
                                          (rev (sort (organizations w)))\<rparr>)"
    by (simp add: calculate_stats_all_orgs_def organization_ids_def stats_loop_async)
next
  assume "\<forall>p ts. \<not> isl (utc p ts fs)"
  then show "fst (calculate_stats_all_orgs utc fs redis nm w) = Inr ()"
    by (simp add: calculate_stats_all_orgs_def stats_loop_returns)
next
  assume "fst (calculate_stats_all_orgs utc fs redis nm w) = Inr ()"
  then have "stats_loop utc fs redis nm (organization_ids w) w =
      (Inr (), snd (calculate_stats_all_orgs utc fs redis nm w))"
    by (simp add: calculate_stats_all_orgs_def prod_eq_iff)
  then show "submitted (trace (snd (calculate_stats_all_orgs utc fs redis nm w))) =
        submitted (trace w) @ map (sweep_submission fs nm) (rev (sort (organizations w)))"
    by (simp add: stats_loop_submitted organization_ids_def)
qed

theorem sweep_submits_each_organization_witness:
  "calculate_stats_all_orgs counts_all False True ''run-1'' (example_world\<lparr>redis_connected := True\<rparr>) =
     (Inr (), example_world
        \<lparr>redis_connected := True,
         queue := [sweep_submission False ''run-1'' 2, sweep_submission False ''run-1'' 1],
         trace := [Submit (sweep_submission False ''run-1'' 2),
                   Submit (sweep_submission False ''run-1'' 1)]\<rparr>) \<and>
   submitted (trace (snd (calculate_stats_all_orgs counts_all False False ''run-1'' example_world))) =
     [sweep_submission False ''run-1'' 2, sweep_submission False ''run-1'' 1]"
proof -
  have t: "\<forall>p ts. \<not> isl (counts_all p ts False)"
    by (simp add: counts_all_def)
  from sweep_submits_each_organization
         [where utc = counts_all and fs = False and redis = True and nm = "''run-1''"
            and w = "example_world\<lparr>redis_connected := True\<rparr>"]
  have a: "calculate_stats_all_orgs counts_all False True ''run-1'' (example_world\<lparr>redis_connected := True\<rparr>) =
     (Inr (), example_world
        \<lparr>redis_connected := True,
         queue := [sweep_submission False ''run-1'' 2, sweep_submission False ''run-1'' 1],
         trace := [Submit (sweep_submission False ''run-1'' 2),
                   Submit (sweep_submission False ''run-1'' 1)]\<rparr>)"
    by (simp add: example_world_organization_ids example_world_empty)
  from sweep_submits_each_organization
         [where utc = counts_all and fs = False and redis = False and nm = "''run-1''"
            and w = example_world] t
  have b: "submitted (trace (snd (calculate_stats_all_orgs counts_all False False ''run-1'' example_world))) =
     [sweep_submission False ''run-1'' 2, sweep_submission False ''run-1'' 1]"
    by (simp add: example_world_organization_ids example_world_empty)
  from a b show ?thesis by (rule conjI)
qed

text \<open>
  C8 fails as the claim states it when the jobs are run in place: the sweep then waits
  for each job, and an exception of the first job ends it. The example world has two
  organizations and the sweep submits one job.
\<close>

theorem sweep_stops_at_exception:
  "submitted (trace (snd (calculate_stats_all_orgs (\<lambda>p ts fs. Inl (Raised ''boom'')) False False
                            ''run-1'' example_world))) =
     [sweep_submission False ''run-1'' 2] \<and>
   organizations example_world = [1, 2]"
  by (simp add: calculate_stats_all_orgs_def organization_ids_def example_world_organization_ids
      start_job_async_or_sync_def Let_def run_job_def redis_job_for_calculation_def
      example_world_organization_2 calculation_loop_raise sweep_submission_def)
     (simp add: log_event_def example_world_tables example_world_empty)

text \<open>
  C3, as the code has it. Both runs of \<^verbatim>\<open>fill_annotations_project\<close> return, and
  the database after the second run is the database after the first. The bulk updates
  of the second run match as many rows as those of the first: when the jobs run in
  place, each project's update matches every annotation whose task belongs to the
  project, drifted or not. Running the job of one project again changes no row either.
\<close>

theorem annotation_backfill_twice:
  "(let w1 = snd (fill_annotations_project utc w);
        w2 = snd (fill_annotations_project utc w1)
    in fst (fill_annotations_project utc w) = Inr () \<and>
       fst (fill_annotations_project utc w1) = Inr () \<and>
       database w2 = database w1 \<and>
       annotation_updates (drop (length (trace w1)) (trace w2)) =
         annotation_updates (drop (length (trace w)) (trace w1)) \<and>
       (\<not> redis_connected w \<longrightarrow>
          annotation_updates (drop (length (trace w1)) (trace w2)) =
            map (\<lambda>pid. (pid, annotation_count w pid)) (map project_id (projects w)))) \<and>
   database (underscore_fill_annotations_project pid (underscore_fill_annotations_project pid w)) =
     database (underscore_fill_annotations_project pid w)"
proof (rule conjI)
  show "database (underscore_fill_annotations_project pid (underscore_fill_annotations_project pid w)) =
     database (underscore_fill_annotations_project pid w)"
    by (rule underscore_fill_annotations_project_idem)
  show "let w1 = snd (fill_annotations_project utc w);
        w2 = snd (fill_annotations_project utc w1)
    in fst (fill_annotations_project utc w) = Inr () \<and>
       fst (fill_annotations_project utc w1) = Inr () \<and>
       database w2 = database w1 \<and>
       annotation_updates (drop (length (trace w1)) (trace w2)) =
         annotation_updates (drop (length (trace w)) (trace w1)) \<and>
       (\<not> redis_connected w \<longrightarrow>
          annotation_updates (drop (length (trace w1)) (trace w2)) =
            map (\<lambda>pid. (pid, annotation_count w pid)) (map project_id (projects w)))"
  proof (cases "redis_connected w")
    case True
    then show ?thesis
      by (simp add: fill_annotations_project_async database_def annotation_updates_submits)
  next
    case False
    then show ?thesis
      by (simp add: fill_annotations_project_sync after_annotation_run_frame
          after_annotation_run_twice)
         (simp add: database_def annotation_updates_run_events)
  qed
qed

theorem annotation_backfill_twice_witness:
  "database (snd (fill_annotations_project counts_all
                    (snd (fill_annotations_project counts_all example_world)))) =
   database (snd (fill_annotations_project counts_all example_world)) \<and>
   annotations (snd (fill_annotations_project counts_all example_world)) =
     [\<lparr>annotation_id = 1, annotation_task_id = 1, annotation_project_id = Some 1\<rparr>,
      \<lparr>annotation_id = 2, annotation_task_id = 3, annotation_project_id = Some 3\<rparr>]"
proof -
  have "\<not> redis_connected example_world"
    by (simp add: example_world_tables)
  then have "annotations (snd (fill_annotations_project counts_all example_world)) =
     [\<lparr>annotation_id = 1, annotation_task_id = 1, annotation_project_id = Some 1\<rparr>,
      \<lparr>annotation_id = 2, annotation_task_id = 3, annotation_project_id = Some 3\<rparr>]"
    by (simp add: fill_annotations_project_sync example_world_annotation_run)
  with annotation_backfill_twice [where utc = counts_all and w = example_world and pid = 1]
  show ?thesis by (simp add: Let_def)
qed

text \<open>
  C3 fails as the claim states it, "the second run updates zero rows": in the example
  world, with the jobs run in place, the updates of the second run match one row for
  project 1, none for project 2 and one for project 3; and when the job of project 1 is
  run twice, its update matches one row each time.
\<close>

theorem annotation_backfill_second_run_updates:
  "annotation_updates
     (drop (length (trace (snd (fill_annotations_project counts_all example_world))))
        (trace (snd (fill_annotations_project counts_all
                       (snd (fill_annotations_project counts_all example_world)))))) =
     [(1, 1), (2, 0), (3, 1)] \<and>
   annotation_updates
     (trace (underscore_fill_annotations_project 1
               (underscore_fill_annotations_project 1 example_world))) = [(1, 1), (1, 1)]"
proof -
  have r: "\<not> redis_connected example_world"
    by (simp add: example_world_tables)
  then have r': "\<not> redis_connected (after_annotation_run example_world)"
    by (simp add: after_annotation_run_frame)
  have "annotation_updates
     (drop (length (trace (snd (fill_annotations_project counts_all example_world))))
        (trace (snd (fill_annotations_project counts_all
                       (snd (fill_annotations_project counts_all example_world)))))) =
     [(1, 1), (2, 0), (3, 1)]"
    by (simp add: fill_annotations_project_sync [OF r] fill_annotations_project_sync [OF r']
        after_annotation_run_twice annotation_updates_run_events example_world_annotation_counts
        example_world_tables)
  then show ?thesis using example_world_job_twice by (rule conjI)
qed

text \<open>
  C1. For every batch size greater than 0, the export cycle over the batches of a task
  list gives the serialization of the whole list, one record for each task: the same
  sequence, and so the same number of records, for the size 1000 as for the size 1 or
  for one batch of everything. And whatever \<^verbatim>\<open>export_project\<close> does, a conversion it
  starts is handed as many records as the project has tasks.
\<close>

theorem export_completeness:
  assumes "0 < n"
  shows "export_cycle (ExportDataSerializer_data ext opts w) (batch ts n) =
           ExportDataSerializer_data ext opts w ts \<and>
         length (export_cycle (ExportDataSerializer_data ext opts w) (batch ts n)) = length ts \<and>
         length (export_cycle (ExportDataSerializer_data ext opts w) (batch ts 1000)) =
           length (export_cycle (ExportDataSerializer_data ext opts w) (batch ts 1)) \<and>
         (\<forall>fmt k. Convert fmt k \<in> set (drop (length (trace w'))
                       (trace (snd (export_project ext pid export_format path serializer_context w')))) \<longrightarrow>
                  k = length (project_tasks w' pid))"
proof (intro conjI allI impI)
  show "export_cycle (ExportDataSerializer_data ext opts w) (batch ts n) =
           ExportDataSerializer_data ext opts w ts"
    using assms by (rule export_cycle_batch)
  then show "length (export_cycle (ExportDataSerializer_data ext opts w) (batch ts n)) = length ts"
    by simp
  show "length (export_cycle (ExportDataSerializer_data ext opts w) (batch ts 1000)) =
           length (export_cycle (ExportDataSerializer_data ext opts w) (batch ts 1))"
    by (simp add: export_cycle_batch)
next
  fix fmt k
  assume c: "Convert fmt k \<in> set (drop (length (trace w'))
                       (trace (snd (export_project ext pid export_format path serializer_context w'))))"
  show "k = length (project_tasks w' pid)"
  proof (cases "Project_objects_get pid w'")
    case (Inl e)
    with c show ?thesis by (simp add: export_project_not_found)
  next
    case (Inr p)
    show ?thesis
    proof (cases "upper export_format \<in> set (get_export_formats ext p)")
      case False
      with Inr c show ?thesis by (simp add: export_project_unsupported)
    next
      case True
      show ?thesis
      proof (cases "parsed_context ext serializer_context")
        case (Inl e)
        with Inr True c show ?thesis by (simp add: export_project_bad_context)
      next
        case parsed: (Inr parsed)
        from c show ?thesis
          unfolding export_project_converted [OF Inr True parsed]
          by (auto simp: Let_def export_events_def split: sum.splits prod.splits if_splits)
      qed
    qed
  qed
qed

theorem export_completeness_witness:
  "(0::nat) < 2 \<and>
   export_cycle (ExportDataSerializer_data example_collaborators True example_world)
     (batch (tasks example_world) 2) = [2, 3, 5] \<and>
   length (export_cycle (ExportDataSerializer_data example_collaborators True example_world)
     (batch (tasks example_world) 2)) = 3"
proof -
  have n: "(0::nat) < 2" by simp
  have "ExportDataSerializer_data example_collaborators True example_world (tasks example_world) =
          [2, 3, 5]"
    by (simp add: ExportDataSerializer_data_def example_world_tables example_collaborators_def)
  moreover have "length (tasks example_world) = 3"
    by (simp add: example_world_tables)
  ultimately show ?thesis
    using export_completeness
            [where n = 2 and ext = example_collaborators and opts = True and w = example_world
               and ts = "tasks example_world", OF n]
    by simp
qed

text \<open>
  C2. When the project is found and the upper-cased format is not among the names of
  its export formats, \<^verbatim>\<open>export_project\<close> raises the assertion error and leaves the
  world exactly as it was: no event is added to the trace (the task table is not
  read, nothing is serialized or converted) and no file is written.
\<close>

theorem export_unsupported_format:
  assumes "Project_objects_get pid w = Inr p"
      and "upper export_format \<notin> set (get_export_formats ext p)"
  shows "export_project ext pid export_format path serializer_context w =
           (Inl (AssertionError (get_export_formats ext p)), w)"
  using assms by (rule export_project_unsupported)

theorem export_unsupported_format_witness:
  "export_project example_collaborators 1 ''yolo'' ''/tmp'' PyNone example_world =
     (Inl (AssertionError [''JSON'', ''CSV'']), example_world)"
proof -
  let ?p = "\<lparr>project_id = 1, organization_id = 1, title = ''P1'', updated_at = 10\<rparr>"
  have u: "upper ''yolo'' \<notin> set (get_export_formats example_collaborators ?p)"
    by (simp add: upper_examples example_collaborators_simps)
  from export_unsupported_format
         [where ext = example_collaborators and pid = 1 and w = example_world and p = ?p
            and export_format = "''yolo''" and path = "''/tmp''" and serializer_context = PyNone,
          OF example_world_project_1 u]
  show ?thesis by (simp add: example_collaborators_simps)
qed

text \<open>
  C6. When the export gets as far as the file (the project is found, the format is
  supported, the serializer context is usable, the converter returns, and \<^verbatim>\<open>open\<close>
  succeeds on the resolved path), \<^verbatim>\<open>export_project\<close> returns the resolved path, and
  afterwards the file at that path holds the converter's stream, whatever was there
  before, and every other file is as it was. The resolved path is the destination joined
  with the converter's file name when the destination is a directory, and the
  destination itself otherwise.
\<close>

theorem export_destination_path:
  assumes "Project_objects_get pid w = Inr p"
      and "upper export_format \<in> set (get_export_formats ext p)"
      and "parsed_context ext serializer_context = Inr parsed"
      and "generate_export_file ext p (export_records ext parsed w pid) (upper export_format)
             (CONVERTER_DOWNLOAD_RESOURCES ext) = Inr (export_stream, content_type, filename)"
      and "\<not> isdir w (resolved_path w path filename)"
      and "\<not> open_refused w (resolved_path w path filename)"
  shows "export_project ext pid export_format path serializer_context w =
           (Inr (resolved_path w path filename),
            w\<lparr>files := (files w)(resolved_path w path filename \<mapsto> export_stream),
              trace := trace w @ export_events w pid export_format
                       @ [FileWrite (resolved_path w path filename)]\<rparr>) \<and>
         resolved_path w path filename =
           (if isdir w path then os_path_join path filename else path)"
  using assms(4-6)
  by (simp add: export_project_converted [OF assms(1-3)] resolved_path_def)

theorem export_destination_path_witness:
  "export_project example_collaborators 1 ''json'' ''/tmp'' PyNone example_world =
     (Inr ''/tmp/export.json'',
      example_world\<lparr>files := [''/tmp/export.json'' \<mapsto> ''xx''],
                     trace := [TaskCount 1, TaskFetch 1, Serialize 2, Convert ''JSON'' 2,
                               FileWrite ''/tmp/export.json'']\<rparr>) \<and>
   fst (export_project example_collaborators 1 ''json'' ''/out.json'' PyNone
          (example_world\<lparr>files := [''/out.json'' \<mapsto> ''old'']\<rparr>)) = Inr ''/out.json'' \<and>
   files (snd (export_project example_collaborators 1 ''json'' ''/out.json'' PyNone
                 (example_world\<lparr>files := [''/out.json'' \<mapsto> ''old'']\<rparr>))) = [''/out.json'' \<mapsto> ''xx'']"
proof -
  let ?p = "\<lparr>project_id = 1, organization_id = 1, title = ''P1'', updated_at = 10\<rparr>"
  let ?w = "example_world\<lparr>files := [''/out.json'' \<mapsto> ''old'']\<rparr>"
  have g: "Project_objects_get 1 example_world = Inr ?p" "Project_objects_get 1 ?w = Inr ?p"
    by (simp_all add: Project_objects_get_def example_world_tables)
  have u: "upper ''json'' \<in> set (get_export_formats example_collaborators ?p)"
    by (simp add: upper_examples example_collaborators_simps)
  have c: "parsed_context example_collaborators PyNone = Inr PyNone"
    by (simp add: parsed_context_def)
  have r: "export_records example_collaborators PyNone ?w 1 = [2, 3]"
    using example_world_export_records
    by (simp add: export_records_def ExportDataSerializer_data_def project_tasks_def)
  have e: "export_events ?w 1 ''json'' = [TaskCount 1, TaskFetch 1, Serialize 2, Convert ''JSON'' 2]"
    using example_world_export_events by (simp add: export_events_def project_tasks_def)
  have x: "generate_export_file example_collaborators ?p
             (export_records example_collaborators PyNone example_world 1) (upper ''json'')
             (CONVERTER_DOWNLOAD_RESOURCES example_collaborators) =
           Inr (''xx'', ''application/json'', ''export.json'')"
     "generate_export_file example_collaborators ?p
             (export_records example_collaborators PyNone ?w 1) (upper ''json'')
             (CONVERTER_DOWNLOAD_RESOURCES example_collaborators) =
           Inr (''xx'', ''application/json'', ''export.json'')"
    by (simp_all add: example_collaborators_simps example_world_export_records r del: One_nat_def)
  have d: "\<not> isdir example_world (resolved_path example_world ''/tmp'' ''export.json'')"
    "\<not> open_refused example_world (resolved_path example_world ''/tmp'' ''export.json'')"
    "\<not> isdir ?w (resolved_path ?w ''/out.json'' ''export.json'')"
    "\<not> open_refused ?w (resolved_path ?w ''/out.json'' ''export.json'')"
    by (simp_all add: example_resolved_paths example_world_files)
  from export_destination_path
         [where ext = example_collaborators and pid = 1 and w = example_world and p = ?p
            and export_format = "''json''" and serializer_context = PyNone and parsed = PyNone
            and export_stream = "''xx''" and content_type = "''application/json''"
            and filename = "''export.json''" and path = "''/tmp''",
          OF g(1) u c x(1) d(1) d(2)]
  have one: "export_project example_collaborators 1 ''json'' ''/tmp'' PyNone example_world =
     (Inr ''/tmp/export.json'',
      example_world\<lparr>files := [''/tmp/export.json'' \<mapsto> ''xx''],
                     trace := [TaskCount 1, TaskFetch 1, Serialize 2, Convert ''JSON'' 2,
                               FileWrite ''/tmp/export.json'']\<rparr>)"
    by (simp add: example_resolved_paths example_world_export_events example_world_files
        example_world_empty del: One_nat_def)
  from export_destination_path
         [where ext = example_collaborators and pid = 1 and w = ?w and p = ?p
            and export_format = "''json''" and serializer_context = PyNone and parsed = PyNone
            and export_stream = "''xx''" and content_type = "''application/json''"
            and filename = "''export.json''" and path = "''/out.json''",
          OF g(2) u c x(2) d(3) d(4)]
  have two: "fst (export_project example_collaborators 1 ''json'' ''/out.json'' PyNone ?w) = Inr ''/out.json''"
    "files (snd (export_project example_collaborators 1 ''json'' ''/out.json'' PyNone ?w)) =
       [''/out.json'' \<mapsto> ''xx'']"
    by (simp_all add: example_resolved_paths del: One_nat_def)
  from one two show ?thesis by blast
qed

text \<open>
  C10. For a serializer context that is a string which \<^verbatim>\<open>json.loads\<close> rejects,
  \<^verbatim>\<open>export_project\<close> always ends in an exception: the one of the project lookup or of
  the format check when these fail, and otherwise the one of \<^verbatim>\<open>json.loads\<close>, with
  nothing done but the count of the tasks for the log line, so before any
  serialization and with no file written. A string that \<^verbatim>\<open>json.loads\<close> turns into an
  object gives the export that the object itself gives.
\<close>

theorem export_invalid_json:
  "(json_loads ext s = Inl e \<longrightarrow>
      export_project ext pid export_format path (PyStr s) w =
        (case Project_objects_get pid w of
           Inl e' \<Rightarrow> (Inl e', w)
         | Inr p \<Rightarrow>
             if upper export_format \<in> set (get_export_formats ext p)
             then (Inl e, w\<lparr>trace := trace w @ [TaskCount pid]\<rparr>)
             else (Inl (AssertionError (get_export_formats ext p)), w))) \<and>
   (json_loads ext s = Inr (PyObj j) \<longrightarrow>
      export_project ext pid export_format path (PyStr s) w =
      export_project ext pid export_format path (PyObj j) w)"
proof (intro conjI impI)
  assume "json_loads ext s = Inl e"
  then have "parsed_context ext (PyStr s) = Inl e"
    by (simp add: parsed_context_def)
  then show "export_project ext pid export_format path (PyStr s) w =
        (case Project_objects_get pid w of
           Inl e' \<Rightarrow> (Inl e', w)
         | Inr p \<Rightarrow>
             if upper export_format \<in> set (get_export_formats ext p)
             then (Inl e, w\<lparr>trace := trace w @ [TaskCount pid]\<rparr>)
             else (Inl (AssertionError (get_export_formats ext p)), w))"
    by (simp add: export_project_not_found export_project_unsupported export_project_bad_context
        split: sum.splits)
next
  assume "json_loads ext s = Inr (PyObj j)"
  then have a: "parsed_context ext (PyStr s) = Inr (PyObj j)"
    by (simp add: parsed_context_def)
  have b: "parsed_context ext (PyObj j) = Inr (PyObj j)"
    by (simp add: parsed_context_def)
  show "export_project ext pid export_format path (PyStr s) w =
      export_project ext pid export_format path (PyObj j) w"
  proof (cases "Project_objects_get pid w")
    case (Inl e')
    then show ?thesis by (simp add: export_project_not_found)
  next
    case (Inr p)
    show ?thesis
    proof (cases "upper export_format \<in> set (get_export_formats ext p)")
      case True
      show ?thesis
        unfolding export_project_converted [OF Inr True a] export_project_converted [OF Inr True b]
        by (rule refl)
    next
      case False
      with Inr show ?thesis by (simp add: export_project_unsupported)
    qed
  qed
qed

theorem export_invalid_json_witness:
  "export_project example_collaborators 1 ''json'' ''/tmp'' (PyStr ''{not json'') example_world =
     (Inl (Raised ''JSONDecodeError''), example_world\<lparr>trace := [TaskCount 1]\<rparr>) \<and>
   export_project example_collaborators 1 ''yolo'' ''/tmp'' (PyStr ''{not json'') example_world =
     (Inl (AssertionError [''JSON'', ''CSV'']), example_world) \<and>
   export_project example_collaborators 1 ''json'' ''/tmp'' (PyStr ''{}'') example_world =
   export_project example_collaborators 1 ''json'' ''/tmp'' (PyObj ()) example_world"
proof -
  from export_invalid_json
         [where ext = example_collaborators and s = "''{not json''" and e = "Raised ''JSONDecodeError''"
            and pid = 1 and export_format = "''json''" and path = "''/tmp''" and w = example_world]
  have a: "export_project example_collaborators 1 ''json'' ''/tmp'' (PyStr ''{not json'') example_world =
     (Inl (Raised ''JSONDecodeError''), example_world\<lparr>trace := [TaskCount 1]\<rparr>)"
    by (simp add: example_collaborators_simps example_world_project_1 upper_examples
        example_world_empty del: One_nat_def)
  from export_invalid_json
         [where ext = example_collaborators and s = "''{not json''" and e = "Raised ''JSONDecodeError''"
            and pid = 1 and export_format = "''yolo''" and path = "''/tmp''" and w = example_world]
  have b: "export_project example_collaborators 1 ''yolo'' ''/tmp'' (PyStr ''{not json'') example_world =
     (Inl (AssertionError [''JSON'', ''CSV'']), example_world)"
    by (simp add: example_collaborators_simps example_world_project_1 upper_examples
        del: One_nat_def)
  from export_invalid_json
         [where ext = example_collaborators and s = "''{}''" and j = "()"
            and pid = 1 and export_format = "''json''" and path = "''/tmp''" and w = example_world]
  have c: "export_project example_collaborators 1 ''json'' ''/tmp'' (PyStr ''{}'') example_world =
   export_project example_collaborators 1 ''json'' ''/tmp'' (PyObj ()) example_world"
    by (simp add: example_collaborators_simps)
  from a b c show ?thesis by blast
qed

end
